theory Spec2Isabelle
  imports Main "HOL-Library.Multiset" "HOL-Library.List_Lexorder" "HOL-Library.Char_ord"
begin

section \<open>Connector connection-state reconciliation: the Composio service and its router\<close>

text \<open>
  A shallow embedding of \<^verbatim>\<open>src/main/composio-service.ts\<close> (class ComposioService) and of
  the tRPC router that drives it (\<^verbatim>\<open>composioRouter\<close>: requireAuth, toggleToolkit, connect,
  disconnect, pollConnectionStatus, syncConnections, getMcpConfig).

  The TypeScript mutates a module-level service object, an SQLite database and talks to a
  remote REST API. Here
  \<^item> the service's private fields, the two tables and the effects issued so far (remote
    requests, URLs opened in the browser) are one record \<open>world\<close>, passed in and returned;
  \<^item> everything the outside decides during one call (the logged-in user, the API key, the
    clock, what each remote endpoint answers, whether the browser opens) is a record \<open>env\<close>;
  \<^item> a thrown TRPCError is the \<open>Inl\<close> of a sum, returned together with the world as the
    throw left it.
\<close>

subsection \<open>JavaScript values\<close>

text \<open>
  An optional string (\<^verbatim>\<open>string | undefined | null\<close>) is a \<open>string option\<close>. It is truthy
  when it is present and not the empty string; \<^verbatim>\<open>a || b\<close> is \<open>a\<close> when \<open>a\<close> is truthy and
  \<open>b\<close> otherwise.
\<close>

definition truthy :: "string option \<Rightarrow> bool" where
  "truthy v = (case v of None \<Rightarrow> False | Some s \<Rightarrow> s \<noteq> [])"

definition js_or :: "string option \<Rightarrow> string option \<Rightarrow> string option" where
  "js_or a b = (if truthy a then a else b)"

text \<open>
  Upper-casing of ASCII text: the letters a-z are mapped to A-Z, every other character is
  kept. On ASCII text this is what \<^verbatim>\<open>String.prototype.toUpperCase\<close> computes; the
  builtin itself, which also maps letters outside ASCII, is a parameter of the model
  (the field \<open>toUpperCase\<close> of \<open>env\<close> below), and this function only stands for it in the
  scenario at the end of the definitions, whose statuses are ASCII.
\<close>

definition asciiUpperCase :: "string \<Rightarrow> string" where
  "asciiUpperCase s =
     map (\<lambda>c. case map_of (zip ''abcdefghijklmnopqrstuvwxyz'' ''ABCDEFGHIJKLMNOPQRSTUVWXYZ'') c of
                 Some d \<Rightarrow> d
               | None \<Rightarrow> c) s"

text \<open>Decimal digits of a number, as in the template string \<^verbatim>\<open>`anchor-${Date.now()}`\<close>.\<close>

fun string_of_nat :: "nat \<Rightarrow> string" where
  "string_of_nat n =
     (if n < 10 then [''0123456789'' ! n]
      else string_of_nat (n div 10) @ [''0123456789'' ! (n mod 10)])"

declare string_of_nat.simps [simp del]

subsection \<open>Types of the service\<close>

datatype ConnectionStatus = Connected | Disconnected | Pending | Error

record McpServer =
  srv_id :: string
  srv_name :: string
  srv_toolkits :: "string list"

record McpConfig =
  cfg_url :: string
  cfg_headers :: "(string \<times> string) list"

record AuthorizeResult =
  auth_redirectUrl :: "string option"
  auth_connectionId :: "string option"

subsection \<open>The remote API\<close>

text \<open>
  A \<^verbatim>\<open>fetch\<close> followed by \<^verbatim>\<open>response.json()\<close> has three outcomes: a rejected promise
  (network failure, body that is not JSON), a response whose \<^verbatim>\<open>ok\<close> is false, and a
  response with a body. The body is given decoded into the fields the code reads; a field
  that is absent is \<open>None\<close>, and an \<^verbatim>\<open>items\<close> array that is absent is the empty list (the
  code reads \<^verbatim>\<open>data.items || []\<close>).
\<close>

datatype 'a response = Rejected | NotOk | Ok 'a

record McpServerItem =
  item_id :: string
  item_name :: string
  item_toolkits :: "string list option"

record CreateData =
  create_id :: "string option"
  create_mcp_server_id :: "string option"

record GenerateData =
  gen_user_ids_url :: "string list option"
  gen_url :: "string option"
  gen_mcp_url :: "string option"

record AuthConfig =
  ac_id :: "string option"
  ac_is_composio_managed :: bool
  ac_status :: "string option"
  ac_is_disabled :: bool

record LinkData =
  link_redirect_url :: "string option"
  link_redirectUrl :: "string option"
  link_url :: "string option"
  link_connected_account_id :: "string option"
  link_connectionId :: "string option"
  link_id :: "string option"

record Toolkit =
  tk_slug :: "string option"
  tk_name :: "string option"

record Account =
  acc_id :: string
  acc_toolkit :: "Toolkit option"
  acc_toolkit_slug :: "string option"
  acc_toolkitSlug :: "string option"
  acc_toolkit_name :: "string option"
  acc_appName :: "string option"
  acc_status :: "string option"

text \<open>The requests the service can issue; the world keeps the list of those issued.\<close>

datatype request =
    GET_mcp_servers
  | POST_mcp_servers_custom string "string list"
  | POST_mcp_servers_generate string string
  | GET_auth_configs string
  | POST_auth_configs string
  | POST_connected_accounts_link string string
  | GET_connected_accounts string "string option"
  | DELETE_connected_accounts string

text \<open>The result of \<^verbatim>\<open>JSON.parse(metadata)\<close> followed by reading \<^verbatim>\<open>.connectionId\<close>.\<close>

datatype parsed = ParseThrows | ConnectionIdField "string option"

record ClerkUser =
  clerk_id :: string

record env =
  apiKey :: string
  getUser :: "ClerkUser option"
  now :: nat
  now_name :: nat
  now_check :: nat
  now_mint :: nat
  mcp_servers :: "McpServerItem list response"
  mcp_servers_custom :: "string \<Rightarrow> string list \<Rightarrow> CreateData response"
  mcp_servers_generate :: "string \<Rightarrow> string \<Rightarrow> GenerateData response"
  auth_configs :: "string \<Rightarrow> AuthConfig list response"
  auth_configs_create :: "string \<Rightarrow> string option response"
  connected_accounts_link :: "string \<Rightarrow> string \<Rightarrow> LinkData response"
  connected_accounts :: "string \<Rightarrow> string option \<Rightarrow> Account list response"
  connected_accounts_delete :: "string \<Rightarrow> unit response"
  openExternal :: "string \<Rightarrow> bool"
  JSON_parse :: "string \<Rightarrow> parsed"
  JSON_stringify :: "string \<Rightarrow> string"
  toUpperCase :: "string \<Rightarrow> string"

text \<open>
  \<open>now\<close> is the router's \<^verbatim>\<open>new Date()\<close>; \<open>now_name\<close>, \<open>now_check\<close> and \<open>now_mint\<close>
  are the three readings of \<^verbatim>\<open>Date.now()\<close> in the service (the server name, the URL cache
  test, the expiry of a fresh URL). \<open>openExternal u\<close> tells whether
  \<^verbatim>\<open>shell.openExternal(u)\<close> resolves. \<open>JSON_stringify i\<close> is
  \<^verbatim>\<open>JSON.stringify({ connectionId: i })\<close>. \<open>toUpperCase s\<close> is \<^verbatim>\<open>s.toUpperCase()\<close>: like the
  two JSON functions it is a builtin of the language, taken as it is, so that what is
  proved holds for the Unicode-aware function of JavaScript as for any other.
\<close>

subsection \<open>The two tables and the world\<close>

text \<open>
  Rows of \<^verbatim>\<open>composio_connections\<close> and \<^verbatim>\<open>composio_enabled_toolkits\<close>
  (drizzle/0005\_glamorous\_scorpion.sql). The primary key \<^verbatim>\<open>id\<close> is filled by the schema's
  default (\<^verbatim>\<open>generateId()\<close>, in a schema file that is not among the sources): it is
  taken from the counter \<open>next_id\<close>. The bookkeeping columns \<^verbatim>\<open>created_at\<close> and
  \<^verbatim>\<open>updated_at\<close> are never read and are left out. A timestamp is a number of
  milliseconds.
\<close>

record ConnectionRecord =
  conn_id :: nat
  conn_clerkUserId :: string
  conn_toolkitName :: string
  conn_displayName :: string
  conn_status :: ConnectionStatus
  conn_connectedAt :: "nat option"
  conn_metadata :: "string option"

record EnabledToolkitRecord =
  et_id :: nat
  et_clerkUserId :: string
  et_toolkitName :: string
  et_enabled :: bool

record world =
  composioConnections :: "ConnectionRecord list"
  composioEnabledToolkits :: "EnabledToolkitRecord list"
  next_id :: nat
  cachedMcpServer :: "McpServer option"
  cachedMcpUrl :: "string option"
  mcpUrlExpiry :: nat
  cachedUserId :: "string option"
  cachedToolkits :: "string list"
  fetched :: "request list"
  opened :: "string list"

definition fetch :: "request \<Rightarrow> world \<Rightarrow> world" where
  "fetch r w = w\<lparr>fetched := fetched w @ [r]\<rparr>"

text \<open>
  \<^verbatim>\<open>db.update(t).set(f).where(p).run()\<close> rewrites every row that satisfies \<open>p\<close>;
  \<^verbatim>\<open>db.select().from(t).where(p).get()\<close> is the first such row (\<open>find\<close>).
\<close>

definition update_where :: "('r \<Rightarrow> bool) \<Rightarrow> ('r \<Rightarrow> 'r) \<Rightarrow> 'r list \<Rightarrow> 'r list" where
  "update_where p f rows = map (\<lambda>r. if p r then f r else r) rows"

definition conn_key :: "string \<Rightarrow> string \<Rightarrow> ConnectionRecord \<Rightarrow> bool" where
  "conn_key u t r = (conn_clerkUserId r = u \<and> conn_toolkitName r = t)"

definition et_key :: "string \<Rightarrow> string \<Rightarrow> EnabledToolkitRecord \<Rightarrow> bool" where
  "et_key u t r = (et_clerkUserId r = u \<and> et_toolkitName r = t)"

subsection \<open>ComposioService\<close>

definition isConfigured :: "env \<Rightarrow> bool" where
  "isConfigured e = (length (apiKey e) > 0)"

definition getClerkUserId :: "env \<Rightarrow> string option" where
  "getClerkUserId e =
     (case getUser e of
        None \<Rightarrow> None
      | Some user \<Rightarrow> if clerk_id user = [] then None else Some (clerk_id user))"

definition invalidateSession :: "world \<Rightarrow> world" where
  "invalidateSession w =
     w\<lparr>cachedMcpServer := None, cachedMcpUrl := None, mcpUrlExpiry := 0,
       cachedUserId := None, cachedToolkits := []\<rparr>"

definition arraysEqual :: "string list \<Rightarrow> string list \<Rightarrow> bool" where
  "arraysEqual a b =
     (if length a \<noteq> length b then False
      else let sortedA = sort a; sortedB = sort b
           in list_all (\<lambda>idx. sortedA ! idx = sortedB ! idx) [0..<length sortedA])"

text \<open>
  \<^verbatim>\<open>servers.find(s => s.toolkits && this.arraysEqual(s.toolkits.sort(), toolkits.sort()))\<close>.
  \<^verbatim>\<open>Array.prototype.sort\<close> sorts in place, so each evaluation of the second conjunct
  leaves both the server's array and the caller's \<^verbatim>\<open>toolkits\<close> sorted: the function
  returns the server found and the caller's array as the search left it.
\<close>

fun find_server :: "McpServerItem list \<Rightarrow> string list \<Rightarrow> McpServerItem option \<times> string list" where
  "find_server [] toolkits = (None, toolkits)"
| "find_server (s # servers) toolkits =
     (case item_toolkits s of
        None \<Rightarrow> find_server servers toolkits
      | Some ts \<Rightarrow>
          if arraysEqual (sort ts) (sort toolkits)
          then (Some (s\<lparr>item_toolkits := Some (sort ts)\<rparr>), sort toolkits)
          else find_server servers (sort toolkits))"

text \<open>
  getOrCreateMcpServer in two parts: \<open>createMcpServer\<close> is its second half (lines
  119-156, "Create a new MCP server with the custom toolkits"), reached when the list
  response is not ok or lists no matching server. \<open>sort\<close> orders strings by their
  bytes where JavaScript orders them by UTF-16 code units; \<open>arraysEqual\<close> compares two
  sorted copies, so its result does not depend on which total order is used.
\<close>

definition createMcpServer :: "env \<Rightarrow> string list \<Rightarrow> world \<Rightarrow> world \<times> McpServer option" where
  "createMcpServer e toolkits w =
     (let serverName = ''anchor-'' @ string_of_nat (now_name e);
          w1 = fetch (POST_mcp_servers_custom serverName toolkits) w
      in case mcp_servers_custom e serverName toolkits of
           Rejected \<Rightarrow> (w1, None)
         | NotOk \<Rightarrow> (w1, None)
         | Ok createData \<Rightarrow>
             (case js_or (create_id createData) (create_mcp_server_id createData) of
                None \<Rightarrow> (w1, None)
              | Some serverId \<Rightarrow>
                  if serverId = [] then (w1, None)
                  else let server = \<lparr>srv_id = serverId, srv_name = serverName, srv_toolkits = toolkits\<rparr>
                       in (w1\<lparr>cachedMcpServer := Some server, cachedToolkits := toolkits\<rparr>,
                           Some server)))"

definition getOrCreateMcpServer :: "env \<Rightarrow> string list \<Rightarrow> world \<Rightarrow> world \<times> McpServer option" where
  "getOrCreateMcpServer e toolkits w =
     (if cachedMcpServer w \<noteq> None \<and> arraysEqual (cachedToolkits w) toolkits
      then (w, cachedMcpServer w)
      else let w1 = fetch GET_mcp_servers w
           in case mcp_servers e of
                Rejected \<Rightarrow> (w1, None)
              | NotOk \<Rightarrow> createMcpServer e toolkits w1
              | Ok servers \<Rightarrow>
                  (case find_server servers toolkits of
                     (Some existingServer, toolkits') \<Rightarrow>
                       let server = \<lparr>srv_id = item_id existingServer,
                                      srv_name = item_name existingServer,
                                      srv_toolkits = (case item_toolkits existingServer of
                                                        Some ts \<Rightarrow> ts
                                                      | None \<Rightarrow> toolkits')\<rparr>
                       in (w1\<lparr>cachedMcpServer := Some server, cachedToolkits := toolkits'\<rparr>,
                           Some server)
                   | (None, toolkits') \<Rightarrow> createMcpServer e toolkits' w1))"

text \<open>Line 206: \<^verbatim>\<open>data.user_ids_url?.[0] || data.url || data.mcp_url\<close>.\<close>

definition mintedUrl :: "GenerateData \<Rightarrow> string option" where
  "mintedUrl data =
     js_or (js_or (case gen_user_ids_url data of
                     None \<Rightarrow> None
                   | Some [] \<Rightarrow> None
                   | Some (u # us) \<Rightarrow> Some u)
                  (gen_url data))
           (gen_mcp_url data)"

definition generateMcpUrl :: "env \<Rightarrow> string \<Rightarrow> string \<Rightarrow> world \<Rightarrow> world \<times> string option" where
  "generateMcpUrl e serverId userId w =
     (if truthy (cachedMcpUrl w) \<and> cachedUserId w = Some userId \<and> now_check e < mcpUrlExpiry w
      then (w, cachedMcpUrl w)
      else let w1 = fetch (POST_mcp_servers_generate serverId userId) w
           in case mcp_servers_generate e serverId userId of
                Rejected \<Rightarrow> (w1, None)
              | NotOk \<Rightarrow> (w1, None)
              | Ok data \<Rightarrow>
                  let mcpUrl = mintedUrl data
                  in if \<not> truthy mcpUrl then (w1, None)
                     else (w1\<lparr>cachedMcpUrl := mcpUrl, cachedUserId := Some userId,
                              mcpUrlExpiry := now_mint e + 30 * 60 * 1000\<rparr>,
                           mcpUrl))"

definition getMcpConfig :: "env \<Rightarrow> string list option \<Rightarrow> world \<Rightarrow> world \<times> McpConfig option" where
  "getMcpConfig e enabledToolkits w =
     (if \<not> isConfigured e then (w, None)
      else case getClerkUserId e of
             None \<Rightarrow> (w, None)
           | Some userId \<Rightarrow>
               let toolkits = (case enabledToolkits of Some ts \<Rightarrow> ts | None \<Rightarrow> [])
               in if length toolkits = 0 then (w, None)
                  else (case getOrCreateMcpServer e toolkits w of
                          (w1, None) \<Rightarrow> (w1, None)
                        | (w1, Some mcpServer) \<Rightarrow>
                            (case generateMcpUrl e (srv_id mcpServer) userId w1 of
                               (w2, None) \<Rightarrow> (w2, None)
                             | (w2, Some mcpUrl) \<Rightarrow>
                                 (w2, Some \<lparr>cfg_url = mcpUrl,
                                            cfg_headers = [(''x-api-key'', apiKey e)]\<rparr>))))"

text \<open>
  \<^verbatim>\<open>getAuthConfigId\<close>: the existing auth configs of the toolkit, or a new one with
  Composio-managed auth when there is none; among existing ones the Composio-managed one,
  else the first active or not disabled one, else the first.
\<close>

definition getAuthConfigId :: "env \<Rightarrow> string \<Rightarrow> world \<Rightarrow> world \<times> string option" where
  "getAuthConfigId e toolkitSlug w =
     (let w1 = fetch (GET_auth_configs toolkitSlug) w
      in case auth_configs e toolkitSlug of
           Rejected \<Rightarrow> (w1, None)
         | NotOk \<Rightarrow> (w1, None)
         | Ok configs \<Rightarrow>
             if length configs = 0
             then let w2 = fetch (POST_auth_configs toolkitSlug) w1
                  in (case auth_configs_create e toolkitSlug of
                        Rejected \<Rightarrow> (w2, None)
                      | NotOk \<Rightarrow> (w2, None)
                      | Ok authConfigId \<Rightarrow>
                          if truthy authConfigId then (w2, authConfigId) else (w2, None))
             else let composioManaged = find ac_is_composio_managed configs;
                      enabledConfig = find (\<lambda>c. ac_status c = Some ''ACTIVE'' \<or> \<not> ac_is_disabled c) configs;
                      selectedId =
                        js_or (js_or (js_or (case composioManaged of None \<Rightarrow> None | Some c \<Rightarrow> ac_id c)
                                            (case enabledConfig of None \<Rightarrow> None | Some c \<Rightarrow> ac_id c))
                                     (case configs of [] \<Rightarrow> None | c # cs \<Rightarrow> ac_id c))
                              None
                  in (w1, selectedId))"

definition authorizeToolkit :: "env \<Rightarrow> string \<Rightarrow> world \<Rightarrow> world \<times> AuthorizeResult option" where
  "authorizeToolkit e toolkitName w =
     (if \<not> isConfigured e then (w, None)
      else case getClerkUserId e of
             None \<Rightarrow> (w, None)
           | Some userId \<Rightarrow>
               (case getAuthConfigId e toolkitName w of
                  (w1, None) \<Rightarrow> (w1, None)
                | (w1, Some authConfigId) \<Rightarrow>
                    if authConfigId = [] then (w1, None)
                    else let w2 = fetch (POST_connected_accounts_link authConfigId userId) w1
                         in (case connected_accounts_link e authConfigId userId of
                               Rejected \<Rightarrow> (w2, None)
                             | NotOk \<Rightarrow> (w2, None)
                             | Ok data \<Rightarrow>
                                 let redirectUrl = js_or (js_or (link_redirect_url data) (link_redirectUrl data))
                                                         (link_url data);
                                     connectionId = js_or (js_or (link_connected_account_id data)
                                                                 (link_connectionId data))
                                                          (link_id data);
                                     result = \<lparr>auth_redirectUrl = redirectUrl,
                                               auth_connectionId = connectionId\<rparr>
                                 in (case redirectUrl of
                                       None \<Rightarrow> (w2, Some result)
                                     | Some u \<Rightarrow>
                                         if u = [] then (w2, Some result)
                                         else if openExternal e u
                                         then (w2\<lparr>opened := opened w2 @ [u]\<rparr>, Some result)
                                         else (w2, None)))))"

text \<open>Lines 488-494 of \<^verbatim>\<open>getConnectionStatus\<close>: "Map Composio status to our status".\<close>

definition mapStatus :: "env \<Rightarrow> string option \<Rightarrow> ConnectionStatus" where
  "mapStatus e connection_status =
     (let status = map_option (toUpperCase e) connection_status
      in if status = Some ''ACTIVE'' then Connected
         else if status = Some ''INITIATED'' \<or> status = Some ''INITIALIZING'' then Pending
         else if status = Some ''FAILED'' \<or> status = Some ''EXPIRED'' \<or> status = Some ''INACTIVE''
              then Error
         else Disconnected)"

definition matchesToolkit :: "string \<Rightarrow> Account \<Rightarrow> bool" where
  "matchesToolkit toolkitName c =
     ((case acc_toolkit c of None \<Rightarrow> False | Some t \<Rightarrow> tk_slug t = Some toolkitName)
      \<or> acc_toolkit_slug c = Some toolkitName
      \<or> acc_toolkitSlug c = Some toolkitName)"

definition getConnectionStatus :: "env \<Rightarrow> string \<Rightarrow> world \<Rightarrow> world \<times> ConnectionStatus" where
  "getConnectionStatus e toolkitName w =
     (if \<not> isConfigured e then (w, Disconnected)
      else case getClerkUserId e of
             None \<Rightarrow> (w, Disconnected)
           | Some userId \<Rightarrow>
               let w1 = fetch (GET_connected_accounts userId (Some toolkitName)) w
               in (case connected_accounts e userId (Some toolkitName) of
                     Rejected \<Rightarrow> (w1, Error)
                   | NotOk \<Rightarrow> (w1, Error)
                   | Ok connections \<Rightarrow>
                       (case find (matchesToolkit toolkitName) connections of
                          None \<Rightarrow> (w1, Disconnected)
                        | Some connection \<Rightarrow> (w1, mapStatus e (acc_status connection)))))"

definition getConnectedAccounts :: "env \<Rightarrow> world \<Rightarrow> world \<times> Account list" where
  "getConnectedAccounts e w =
     (if \<not> isConfigured e then (w, [])
      else case getClerkUserId e of
             None \<Rightarrow> (w, [])
           | Some userId \<Rightarrow>
               let w1 = fetch (GET_connected_accounts userId None) w
               in (case connected_accounts e userId None of
                     Rejected \<Rightarrow> (w1, [])
                   | NotOk \<Rightarrow> (w1, [])
                   | Ok items \<Rightarrow> (w1, items)))"

definition disconnectToolkit :: "env \<Rightarrow> string \<Rightarrow> world \<Rightarrow> world \<times> bool" where
  "disconnectToolkit e connectionId w =
     (if \<not> isConfigured e then (w, False)
      else let w1 = fetch (DELETE_connected_accounts connectionId) w
           in (case connected_accounts_delete e connectionId of
                 Rejected \<Rightarrow> (w1, False)
               | NotOk \<Rightarrow> (w1, False)
               | Ok u \<Rightarrow> (invalidateSession w1, True)))"

subsection \<open>The router\<close>

datatype TRPCError = UNAUTHORIZED string | INTERNAL_SERVER_ERROR string

definition requireAuth :: "env \<Rightarrow> TRPCError + string" where
  "requireAuth e =
     (case getUser e of
        None \<Rightarrow> Inl (UNAUTHORIZED ''Login required for Connectors'')
      | Some user \<Rightarrow>
          if clerk_id user = [] then Inl (UNAUTHORIZED ''Login required for Connectors'')
          else Inr (clerk_id user))"

text \<open>
  The upsert of the enabled flag that toggleToolkit and pollConnectionStatus both write
  out: the existing row is updated through its id, a missing one is inserted.
\<close>

definition setEnabled :: "string \<Rightarrow> string \<Rightarrow> bool \<Rightarrow> world \<Rightarrow> world" where
  "setEnabled clerkUserId toolkitName enabled w =
     (case find (et_key clerkUserId toolkitName) (composioEnabledToolkits w) of
        Some existing \<Rightarrow>
          w\<lparr>composioEnabledToolkits :=
              update_where (\<lambda>r. et_id r = et_id existing) (\<lambda>r. r\<lparr>et_enabled := enabled\<rparr>)
                (composioEnabledToolkits w)\<rparr>
      | None \<Rightarrow>
          w\<lparr>composioEnabledToolkits :=
              composioEnabledToolkits w @
                [\<lparr>et_id = next_id w, et_clerkUserId = clerkUserId,
                  et_toolkitName = toolkitName, et_enabled = enabled\<rparr>],
            next_id := Suc (next_id w)\<rparr>)"

definition toggleToolkit :: "env \<Rightarrow> string \<Rightarrow> bool \<Rightarrow> world \<Rightarrow> world \<times> (TRPCError + bool)" where
  "toggleToolkit e toolkitName enabled w =
     (case requireAuth e of
        Inl err \<Rightarrow> (w, Inl err)
      | Inr clerkUserId \<Rightarrow>
          (invalidateSession (setEnabled clerkUserId toolkitName enabled w), Inr True))"

record ConnectResult =
  res_connectionId :: "string option"
  res_redirectUrl :: "string option"
  res_status :: ConnectionStatus

definition connect :: "env \<Rightarrow> string \<Rightarrow> string \<Rightarrow> world \<Rightarrow> world \<times> (TRPCError + ConnectResult)" where
  "connect e toolkitName displayName w =
     (case requireAuth e of
        Inl err \<Rightarrow> (w, Inl err)
      | Inr clerkUserId \<Rightarrow>
          let w1 = (case find (conn_key clerkUserId toolkitName) (composioConnections w) of
                      Some existing \<Rightarrow>
                        w\<lparr>composioConnections :=
                            update_where (\<lambda>r. conn_id r = conn_id existing)
                              (\<lambda>r. r\<lparr>conn_status := Pending\<rparr>) (composioConnections w)\<rparr>
                    | None \<Rightarrow>
                        w\<lparr>composioConnections :=
                            composioConnections w @
                              [\<lparr>conn_id = next_id w, conn_clerkUserId = clerkUserId,
                                conn_toolkitName = toolkitName, conn_displayName = displayName,
                                conn_status = Pending, conn_connectedAt = None,
                                conn_metadata = None\<rparr>],
                          next_id := Suc (next_id w)\<rparr>)
          in (case authorizeToolkit e toolkitName w1 of
                (w2, None) \<Rightarrow>
                  (w2\<lparr>composioConnections :=
                        update_where (conn_key clerkUserId toolkitName)
                          (\<lambda>r. r\<lparr>conn_status := Error\<rparr>) (composioConnections w2)\<rparr>,
                   Inl (INTERNAL_SERVER_ERROR
                          (''Cannot connect to '' @ displayName @
                           ''. This app may not support OAuth authentication or requires manual API key setup in Composio dashboard.'')))
              | (w2, Some result) \<Rightarrow>
                  (w2, Inr \<lparr>res_connectionId = auth_connectionId result,
                            res_redirectUrl = auth_redirectUrl result,
                            res_status = Pending\<rparr>)))"

definition disconnect :: "env \<Rightarrow> string \<Rightarrow> world \<Rightarrow> world \<times> (TRPCError + bool)" where
  "disconnect e toolkitName w =
     (case requireAuth e of
        Inl err \<Rightarrow> (w, Inl err)
      | Inr clerkUserId \<Rightarrow>
          let w1 = (case find (conn_key clerkUserId toolkitName) (composioConnections w) of
                      None \<Rightarrow> w
                    | Some connection \<Rightarrow>
                        (case conn_metadata connection of
                           None \<Rightarrow> w
                         | Some text \<Rightarrow>
                             if text = [] then w
                             else (case JSON_parse e text of
                                     ParseThrows \<Rightarrow> w
                                   | ConnectionIdField None \<Rightarrow> w
                                   | ConnectionIdField (Some connectionId) \<Rightarrow>
                                       if connectionId = [] then w
                                       else fst (disconnectToolkit e connectionId w))));
              w2 = w1\<lparr>composioConnections :=
                        update_where (conn_key clerkUserId toolkitName)
                          (\<lambda>r. r\<lparr>conn_status := Disconnected, conn_connectedAt := None,
                                  conn_metadata := None\<rparr>)
                          (composioConnections w1)\<rparr>;
              w3 = w2\<lparr>composioEnabledToolkits :=
                        update_where (et_key clerkUserId toolkitName)
                          (\<lambda>r. r\<lparr>et_enabled := False\<rparr>) (composioEnabledToolkits w2)\<rparr>
          in (invalidateSession w3, Inr True))"

definition pollConnectionStatus ::
  "env \<Rightarrow> string \<Rightarrow> world \<Rightarrow> world \<times> (TRPCError + ConnectionStatus)" where
  "pollConnectionStatus e toolkitName w =
     (case requireAuth e of
        Inl err \<Rightarrow> (w, Inl err)
      | Inr clerkUserId \<Rightarrow>
          (case getConnectionStatus e toolkitName w of
             (w1, status) \<Rightarrow>
               let w2 = w1\<lparr>composioConnections :=
                             update_where (conn_key clerkUserId toolkitName)
                               (\<lambda>r. r\<lparr>conn_status := status,
                                       conn_connectedAt :=
                                         (if status = Connected then Some (now e) else None)\<rparr>)
                               (composioConnections w1)\<rparr>
               in if status = Connected
                  then (invalidateSession (setEnabled clerkUserId toolkitName True w2), Inr status)
                  else (w2, Inr status)))"

text \<open>
  The body of the loop of syncConnections for one account; \<open>None\<close> is the \<^verbatim>\<open>continue\<close>
  of an account without a toolkit name. \<open>accountToolkitName\<close> is the expression of
  lines 392-396, \<open>accountStatus\<close> that of lines 404-405, \<open>upsertAccount\<close> the update or
  insert of the connection row (lines 407-439) and \<open>autoEnable\<close> the body of the last
  \<^verbatim>\<open>if\<close> (lines 443-471), where the enabled row is only written when it is missing or
  not yet enabled.
\<close>

definition accountToolkitName :: "Account \<Rightarrow> string option" where
  "accountToolkitName account =
     js_or (js_or (js_or (case acc_toolkit account of None \<Rightarrow> None | Some t \<Rightarrow> tk_slug t)
                         (acc_toolkit_slug account))
                  (acc_toolkit_name account))
           (acc_appName account)"

definition accountStatus :: "env \<Rightarrow> Account \<Rightarrow> ConnectionStatus" where
  "accountStatus e account =
     (if map_option (toUpperCase e) (acc_status account) = Some ''ACTIVE''
      then Connected else Disconnected)"

definition upsertAccount ::
  "env \<Rightarrow> string \<Rightarrow> string \<Rightarrow> Account \<Rightarrow> ConnectionStatus \<Rightarrow> world \<Rightarrow> world" where
  "upsertAccount e clerkUserId toolkitName account status w =
     (let connectedAt = (if status = Connected then Some (now e) else None);
          metadata = Some (JSON_stringify e (acc_id account))
      in case find (conn_key clerkUserId toolkitName) (composioConnections w) of
           Some existing \<Rightarrow>
             w\<lparr>composioConnections :=
                 update_where (\<lambda>r. conn_id r = conn_id existing)
                   (\<lambda>r. r\<lparr>conn_status := status, conn_connectedAt := connectedAt,
                           conn_metadata := metadata\<rparr>)
                   (composioConnections w)\<rparr>
         | None \<Rightarrow>
             w\<lparr>composioConnections :=
                 composioConnections w @
                   [\<lparr>conn_id = next_id w, conn_clerkUserId = clerkUserId,
                     conn_toolkitName = toolkitName,
                     conn_displayName =
                       (case js_or (case acc_toolkit account of
                                      None \<Rightarrow> None
                                    | Some t \<Rightarrow> tk_name t)
                                   (acc_toolkit_name account) of
                          None \<Rightarrow> toolkitName
                        | Some n \<Rightarrow> if n = [] then toolkitName else n),
                     conn_status = status, conn_connectedAt = connectedAt,
                     conn_metadata = metadata\<rparr>],
               next_id := Suc (next_id w)\<rparr>)"

definition autoEnable :: "string \<Rightarrow> string \<Rightarrow> world \<Rightarrow> world" where
  "autoEnable clerkUserId toolkitName w =
     (case find (et_key clerkUserId toolkitName) (composioEnabledToolkits w) of
        Some existingEnabled \<Rightarrow>
          if \<not> et_enabled existingEnabled
          then w\<lparr>composioEnabledToolkits :=
                   update_where (\<lambda>r. et_id r = et_id existingEnabled)
                     (\<lambda>r. r\<lparr>et_enabled := True\<rparr>) (composioEnabledToolkits w)\<rparr>
          else w
      | None \<Rightarrow>
          w\<lparr>composioEnabledToolkits :=
              composioEnabledToolkits w @
                [\<lparr>et_id = next_id w, et_clerkUserId = clerkUserId,
                  et_toolkitName = toolkitName, et_enabled = True\<rparr>],
            next_id := Suc (next_id w)\<rparr>)"

definition syncAccount :: "env \<Rightarrow> string \<Rightarrow> Account \<Rightarrow> world \<Rightarrow> world option" where
  "syncAccount e clerkUserId account w =
     (case accountToolkitName account of
        None \<Rightarrow> None
      | Some toolkitName \<Rightarrow>
          if toolkitName = [] then None
          else
            let status = accountStatus e account;
                w1 = upsertAccount e clerkUserId toolkitName account status w
            in if status = Connected then Some (autoEnable clerkUserId toolkitName w1)
               else Some w1)"

fun syncLoop :: "env \<Rightarrow> string \<Rightarrow> Account list \<Rightarrow> world \<Rightarrow> nat \<Rightarrow> world \<times> nat" where
  "syncLoop e clerkUserId [] w syncedCount = (w, syncedCount)"
| "syncLoop e clerkUserId (account # accounts) w syncedCount =
     (case syncAccount e clerkUserId account w of
        None \<Rightarrow> syncLoop e clerkUserId accounts w syncedCount
      | Some w' \<Rightarrow> syncLoop e clerkUserId accounts w' (Suc syncedCount))"

definition syncConnections :: "env \<Rightarrow> world \<Rightarrow> world \<times> (TRPCError + nat)" where
  "syncConnections e w =
     (case requireAuth e of
        Inl err \<Rightarrow> (w, Inl err)
      | Inr clerkUserId \<Rightarrow>
          (case getConnectedAccounts e w of
             (w1, accounts) \<Rightarrow>
               (case syncLoop e clerkUserId accounts w1 0 of
                  (w2, synced) \<Rightarrow> (w2, Inr synced))))"

definition composioRouter_getMcpConfig :: "env \<Rightarrow> world \<Rightarrow> world \<times> McpConfig option" where
  "composioRouter_getMcpConfig e w =
     (if \<not> isConfigured e then (w, None)
      else case requireAuth e of
             Inl err \<Rightarrow> (w, None)
           | Inr clerkUserId \<Rightarrow>
               let enabledNames =
                     map et_toolkitName
                       (filter (\<lambda>r. et_clerkUserId r = clerkUserId \<and> et_enabled r = True)
                          (composioEnabledToolkits w))
               in if length enabledNames = 0 then (w, None)
                  else getMcpConfig e (Some enabledNames) w)"

text \<open>
  The status and the enabled flag of a (user, toolkit) pair: those of the row that
  \<^verbatim>\<open>.get()\<close> reads for the pair, with the defaults of listToolkits (lines 90 and 91) when
  there is no row, \<^verbatim>\<open>"disconnected"\<close> and \<^verbatim>\<open>false\<close>.
\<close>

definition statusOf :: "world \<Rightarrow> string \<Rightarrow> string \<Rightarrow> ConnectionStatus" where
  "statusOf w clerkUserId toolkitName =
     (case find (conn_key clerkUserId toolkitName) (composioConnections w) of
        None \<Rightarrow> Disconnected
      | Some c \<Rightarrow> conn_status c)"

definition enabledOf :: "world \<Rightarrow> string \<Rightarrow> string \<Rightarrow> bool" where
  "enabledOf w clerkUserId toolkitName =
     (case find (et_key clerkUserId toolkitName) (composioEnabledToolkits w) of
        None \<Rightarrow> False
      | Some r \<Rightarrow> et_enabled r)"

text \<open>
  The invariant of the data model: no row of the enabled table has \<open>enabled = true\<close> while
  the status shown for its (user, toolkit) pair is not \<open>connected\<close>.
\<close>

definition enabledImpliesConnected :: "world \<Rightarrow> bool" where
  "enabledImpliesConnected w =
     list_all (\<lambda>r. et_enabled r \<longrightarrow> statusOf w (et_clerkUserId r) (et_toolkitName r) = Connected)
       (composioEnabledToolkits w)"

text \<open>
  The primary key of the enabled table: the ids of its rows are distinct, and below the
  counter that numbers the next row.
\<close>

definition enabledIdsFresh :: "world \<Rightarrow> bool" where
  "enabledIdsFresh w =
     (distinct (map et_id (composioEnabledToolkits w))
      \<and> list_all (\<lambda>r. et_id r < next_id w) (composioEnabledToolkits w))"

subsection \<open>A scenario: the user u1 and the toolkit github\<close>

definition github_account :: "string \<Rightarrow> Account" where
  "github_account st =
     \<lparr>acc_id = ''ca_1'',
      acc_toolkit = Some \<lparr>tk_slug = Some ''github'', tk_name = Some ''GitHub''\<rparr>,
      acc_toolkit_slug = None, acc_toolkitSlug = None, acc_toolkit_name = None,
      acc_appName = None, acc_status = Some st\<rparr>"

definition stringify_connectionId :: "string \<Rightarrow> string" where
  "stringify_connectionId i =
     [CHR ''{'', CHR 0x22] @ ''connectionId'' @ [CHR 0x22, CHR '':'', CHR 0x22] @ i @
     [CHR 0x22, CHR ''}'']"

text \<open>
  A remote that reports one connected account of u1, for github, in the given status;
  it has no MCP server yet and creates one on request, mints one URL, and has no auth
  config for any toolkit and refuses to create one.
\<close>

definition remote_github :: "string \<Rightarrow> env" where
  "remote_github st =
     \<lparr>apiKey = ''key'', getUser = Some \<lparr>clerk_id = ''u1''\<rparr>,
      now = 1000, now_name = 1000, now_check = 1000, now_mint = 1001,
      mcp_servers = Ok [],
      mcp_servers_custom =
        (\<lambda>name ts. Ok \<lparr>create_id = Some ''srv_1'', create_mcp_server_id = None\<rparr>),
      mcp_servers_generate =
        (\<lambda>serverId userId.
           Ok \<lparr>gen_user_ids_url = Some [''https://mcp.example/srv_1?user_id=u1''],
               gen_url = None, gen_mcp_url = None\<rparr>),
      auth_configs = (\<lambda>slug. Ok []),
      auth_configs_create = (\<lambda>slug. NotOk),
      connected_accounts_link = (\<lambda>authConfigId userId. NotOk),
      connected_accounts = (\<lambda>userId slug. Ok [github_account st]),
      connected_accounts_delete = (\<lambda>connectionId. NotOk),
      openExternal = (\<lambda>u. True),
      JSON_parse = (\<lambda>t. if t = stringify_connectionId ''ca_1''
                         then ConnectionIdField (Some ''ca_1'') else ParseThrows),
      JSON_stringify = stringify_connectionId,
      toUpperCase = asciiUpperCase\<rparr>"

definition world0 :: world where
  "world0 =
     \<lparr>composioConnections = [], composioEnabledToolkits = [], next_id = 0,
      cachedMcpServer = None, cachedMcpUrl = None, mcpUrlExpiry = 0, cachedUserId = None,
      cachedToolkits = [], fetched = [], opened = []\<rparr>"

text \<open>A world in which u1 has a github connection in the given status and enabled flag.\<close>

definition world_github :: "ConnectionStatus \<Rightarrow> bool \<Rightarrow> world" where
  "world_github st en =
     world0\<lparr>composioConnections :=
              [\<lparr>conn_id = 0, conn_clerkUserId = ''u1'', conn_toolkitName = ''github'',
                conn_displayName = ''GitHub'', conn_status = st, conn_connectedAt = None,
                conn_metadata = Some (stringify_connectionId ''ca_1'')\<rparr>],
            composioEnabledToolkits :=
              [\<lparr>et_id = 1, et_clerkUserId = ''u1'', et_toolkitName = ''github'',
                et_enabled = en\<rparr>],
            next_id := 2\<rparr>"

section \<open>Auxiliary facts\<close>

subsection \<open>Rows and updates\<close>

lemma find_update_where:
  assumes "\<And>r. k (f r) = k r"
  shows "find k (update_where p f rows) = map_option (\<lambda>r. if p r then f r else r) (find k rows)"
  by (induction rows) (auto simp: update_where_def assms)

lemma find_None_update_where: "find p rows = None \<Longrightarrow> update_where p f rows = rows"
  by (induction rows) (auto simp: update_where_def split: if_splits)

lemma set_update_where:
  "r \<in> set (update_where p f rows) \<Longrightarrow> \<exists>r0 \<in> set rows. r = (if p r0 then f r0 else r0)"
  by (auto simp: update_where_def)

lemma find_append_None: "find p xs = None \<Longrightarrow> find p (xs @ ys) = find p ys"
  by (induction xs) (auto split: if_splits)

lemma find_append_Some: "find p xs = Some x \<Longrightarrow> find p (xs @ ys) = Some x"
  by (induction xs) (auto split: if_splits)

lemma find_Some_key: "find p xs = Some x \<Longrightarrow> p x \<and> x \<in> set xs"
  by (induction xs) (auto split: if_splits)

subsection \<open>What the service leaves alone\<close>

lemma fetch_fields [simp]:
  "composioConnections (fetch r w) = composioConnections w"
  "composioEnabledToolkits (fetch r w) = composioEnabledToolkits w"
  "next_id (fetch r w) = next_id w"
  "cachedMcpServer (fetch r w) = cachedMcpServer w"
  "cachedMcpUrl (fetch r w) = cachedMcpUrl w"
  "mcpUrlExpiry (fetch r w) = mcpUrlExpiry w"
  "cachedUserId (fetch r w) = cachedUserId w"
  "cachedToolkits (fetch r w) = cachedToolkits w"
  "fetched (fetch r w) = fetched w @ [r]"
  "opened (fetch r w) = opened w"
  by (simp_all add: fetch_def)

lemma invalidateSession_fields [simp]:
  "composioConnections (invalidateSession w) = composioConnections w"
  "composioEnabledToolkits (invalidateSession w) = composioEnabledToolkits w"
  "next_id (invalidateSession w) = next_id w"
  "cachedMcpServer (invalidateSession w) = None"
  "cachedMcpUrl (invalidateSession w) = None"
  "mcpUrlExpiry (invalidateSession w) = 0"
  "cachedUserId (invalidateSession w) = None"
  "cachedToolkits (invalidateSession w) = []"
  "fetched (invalidateSession w) = fetched w"
  "opened (invalidateSession w) = opened w"
  by (simp_all add: invalidateSession_def)

lemma requireAuth_cases:
  "requireAuth e = Inl (UNAUTHORIZED ''Login required for Connectors'') \<and> getClerkUserId e = None
   \<or> (\<exists>u. requireAuth e = Inr u \<and> getClerkUserId e = Some u \<and> u \<noteq> [])"
  by (auto simp: requireAuth_def getClerkUserId_def split: option.splits)

lemma disconnectToolkit_tables [simp]:
  "composioConnections (fst (disconnectToolkit e i w)) = composioConnections w"
  "composioEnabledToolkits (fst (disconnectToolkit e i w)) = composioEnabledToolkits w"
  "next_id (fst (disconnectToolkit e i w)) = next_id w"
  by (simp_all add: disconnectToolkit_def Let_def split: response.splits)

lemma getConnectionStatus_tables [simp]:
  "composioConnections (fst (getConnectionStatus e s w)) = composioConnections w"
  "composioEnabledToolkits (fst (getConnectionStatus e s w)) = composioEnabledToolkits w"
  "next_id (fst (getConnectionStatus e s w)) = next_id w"
  by (simp_all add: getConnectionStatus_def Let_def split: response.splits option.splits)


lemma update_where_all:
  assumes "\<And>r. p r \<Longrightarrow> Q (f r)"
  shows "\<forall>r \<in> set (update_where p f rows). p r \<longrightarrow> Q r"
  by (auto simp: update_where_def assms)


lemma setEnabled_connections [simp]:
  "composioConnections (setEnabled u s b w) = composioConnections w"
  by (simp add: setEnabled_def split: option.splits)

lemma setEnabled_enabledOf: "enabledOf (setEnabled u s b w) u s = b"
proof (cases "find (et_key u s) (composioEnabledToolkits w)")
  case None
  then show ?thesis
    by (simp add: setEnabled_def enabledOf_def find_append_None et_key_def)
next
  case (Some existing)
  have "find (et_key u s)
          (update_where (\<lambda>r. et_id r = et_id existing) (\<lambda>r. r\<lparr>et_enabled := b\<rparr>)
             (composioEnabledToolkits w))
        = Some (existing\<lparr>et_enabled := b\<rparr>)"
    by (subst find_update_where) (simp_all add: et_key_def Some)
  with Some show ?thesis by (simp add: setEnabled_def enabledOf_def)
qed

lemma mapStatus_Connected_iff:
  "mapStatus e x = Connected \<longleftrightarrow> map_option (toUpperCase e) x = Some ''ACTIVE''"
  by (simp add: mapStatus_def Let_def)

lemma getConnectionStatus_Connected_iff:
  "snd (getConnectionStatus e s w) = Connected \<longleftrightarrow>
     (\<exists>u accounts a. isConfigured e \<and> getClerkUserId e = Some u
        \<and> connected_accounts e u (Some s) = Ok accounts
        \<and> find (matchesToolkit s) accounts = Some a
        \<and> map_option (toUpperCase e) (acc_status a) = Some ''ACTIVE'')"
  by (auto simp: getConnectionStatus_def Let_def mapStatus_Connected_iff
           split: option.splits response.splits)

lemma getConnectionStatus_observed:
  "isConfigured e \<Longrightarrow> getClerkUserId e = Some u \<Longrightarrow> connected_accounts e u (Some s) = Ok accounts
   \<Longrightarrow> find (matchesToolkit s) accounts = Some a
   \<Longrightarrow> snd (getConnectionStatus e s w) = mapStatus e (acc_status a)"
  by (simp add: getConnectionStatus_def Let_def)

lemma pollConnectionStatus_unfold:
  assumes auth: "requireAuth e = Inr u"
    and run: "pollConnectionStatus e s w = (w', r)"
  defines "st \<equiv> snd (getConnectionStatus e s w)"
  defines "cs \<equiv> update_where (conn_key u s)
             (\<lambda>r. r\<lparr>conn_status := st,
                     conn_connectedAt := (if st = Connected then Some (now e) else None)\<rparr>)
             (composioConnections w)"
  shows "r = Inr st"
    and "composioConnections w' = cs"
    and "st = Connected \<Longrightarrow>
           w' = invalidateSession (setEnabled u s True
                  ((fst (getConnectionStatus e s w))\<lparr>composioConnections := cs\<rparr>))"
    and "st \<noteq> Connected \<Longrightarrow> w' = (fst (getConnectionStatus e s w))\<lparr>composioConnections := cs\<rparr>"
proof -
  obtain w1 st1 where g: "getConnectionStatus e s w = (w1, st1)"
    by (cases "getConnectionStatus e s w")
  have t: "composioConnections w1 = composioConnections w"
    using getConnectionStatus_tables(1)[of e s w] by (simp add: g)
  have st: "st = st1" by (simp add: st_def g)
  from run auth g show "r = Inr st"
    by (simp add: pollConnectionStatus_def Let_def st split: if_splits)
  from run auth g show "composioConnections w' = cs"
    by (auto simp add: pollConnectionStatus_def Let_def st t cs_def split: if_splits)
  from run auth g show "st = Connected \<Longrightarrow>
           w' = invalidateSession (setEnabled u s True
                  ((fst (getConnectionStatus e s w))\<lparr>composioConnections := cs\<rparr>))"
    by (auto simp add: pollConnectionStatus_def Let_def st t cs_def split: if_splits)
  from run auth g show "st \<noteq> Connected \<Longrightarrow> w' = (fst (getConnectionStatus e s w))\<lparr>composioConnections := cs\<rparr>"
    by (auto simp add: pollConnectionStatus_def Let_def st t cs_def split: if_splits)
qed

lemma enabledOf_invalidateSession [simp]: "enabledOf (invalidateSession w) u s = enabledOf w u s"
  by (simp add: enabledOf_def)

lemma statusOf_invalidateSession [simp]: "statusOf (invalidateSession w) u s = statusOf w u s"
  by (simp add: statusOf_def)

lemma getAuthConfigId_result:
  "snd (getAuthConfigId e s w) = snd (getAuthConfigId e s w0)"
  by (simp add: getAuthConfigId_def Let_def split: response.splits)

lemma getAuthConfigId_tables [simp]:
  "composioConnections (fst (getAuthConfigId e s w)) = composioConnections w"
  "composioEnabledToolkits (fst (getAuthConfigId e s w)) = composioEnabledToolkits w"
  "next_id (fst (getAuthConfigId e s w)) = next_id w"
  by (simp_all add: getAuthConfigId_def Let_def split: response.splits)

lemma authorizeToolkit_tables [simp]:
  "composioConnections (fst (authorizeToolkit e s w)) = composioConnections w"
  "composioEnabledToolkits (fst (authorizeToolkit e s w)) = composioEnabledToolkits w"
  "next_id (fst (authorizeToolkit e s w)) = next_id w"
proof -
  obtain w1 a where g: "getAuthConfigId e s w = (w1, a)"
    by (cases "getAuthConfigId e s w")
  have t: "composioConnections w1 = composioConnections w"
    "composioEnabledToolkits w1 = composioEnabledToolkits w" "next_id w1 = next_id w"
    using getAuthConfigId_tables[of e s w] by (simp_all add: g)
  show "composioConnections (fst (authorizeToolkit e s w)) = composioConnections w"
    "composioEnabledToolkits (fst (authorizeToolkit e s w)) = composioEnabledToolkits w"
    "next_id (fst (authorizeToolkit e s w)) = next_id w"
    by (simp_all add: authorizeToolkit_def Let_def g t split: option.splits response.splits)
qed

lemma authorizeToolkit_None:
  assumes "snd (getAuthConfigId e s w) = None"
  shows "snd (authorizeToolkit e s w) = None"
proof -
  obtain w1 where g: "getAuthConfigId e s w = (w1, None)"
    using assms by (cases "getAuthConfigId e s w") simp
  show ?thesis
    by (simp add: authorizeToolkit_def g split: option.splits)
qed

subsection \<open>The session cache\<close>

lemma arraysEqual_iff: "arraysEqual a b \<longleftrightarrow> mset a = mset b"
proof
  assume eq: "arraysEqual a b"
  then have len: "length a = length b"
    by (simp add: arraysEqual_def split: if_splits)
  from eq have "\<forall>idx < length (sort a). sort a ! idx = sort b ! idx"
    by (simp add: arraysEqual_def Let_def list_all_iff split: if_splits)
  then have "sort a = sort b"
    using len by (intro nth_equalityI) simp_all
  then have "mset (sort a) = mset (sort b)" by simp
  then show "mset a = mset b" by simp
next
  assume m: "mset a = mset b"
  then have len: "length a = length b" by (rule mset_eq_length)
  have "sort a = sort b"
    by (rule properties_for_sort) (simp_all add: m)
  then show "arraysEqual a b"
    by (simp add: arraysEqual_def Let_def list_all_iff len)
qed

lemma find_server_mset: "find_server servers ts = (r, ts') \<Longrightarrow> mset ts' = mset ts"
proof (induction servers arbitrary: ts)
  case Nil
  then show ?case by simp
next
  case (Cons s servers)
  show ?case
  proof (cases "item_toolkits s")
    case None
    with Cons show ?thesis by simp
  next
    case (Some x)
    show ?thesis
    proof (cases "arraysEqual (sort x) (sort ts)")
      case True
      with Cons.prems Some show ?thesis by auto
    next
      case False
      with Cons.prems Some have "find_server servers (sort ts) = (r, ts')" by simp
      from Cons.IH[OF this] show ?thesis by simp
    qed
  qed
qed

lemma createMcpServer_Some:
  assumes "createMcpServer e ts w = (w', Some server)"
  shows "cachedMcpServer w' = Some server \<and> cachedToolkits w' = ts"
  using assms
  by (auto simp: createMcpServer_def Let_def split: response.splits option.splits if_splits)

lemma getOrCreateMcpServer_Some:
  assumes "getOrCreateMcpServer e ts w = (w', Some server)"
  shows "cachedMcpServer w' = Some server \<and> mset (cachedToolkits w') = mset ts"
proof (cases "cachedMcpServer w \<noteq> None \<and> arraysEqual (cachedToolkits w) ts")
  case True
  with assms show ?thesis by (auto simp: getOrCreateMcpServer_def arraysEqual_iff)
next
  case miss: False
  from assms have run:
    "(case mcp_servers e of
        Rejected \<Rightarrow> (fetch GET_mcp_servers w, None)
      | NotOk \<Rightarrow> createMcpServer e ts (fetch GET_mcp_servers w)
      | Ok servers \<Rightarrow>
          (case find_server servers ts of
             (Some existingServer, toolkits') \<Rightarrow>
               let server = \<lparr>srv_id = item_id existingServer,
                              srv_name = item_name existingServer,
                              srv_toolkits = (case item_toolkits existingServer of
                                                Some ts \<Rightarrow> ts
                                              | None \<Rightarrow> toolkits')\<rparr>
               in ((fetch GET_mcp_servers w)\<lparr>cachedMcpServer := Some server,
                                              cachedToolkits := toolkits'\<rparr>,
                   Some server)
           | (None, toolkits') \<Rightarrow> createMcpServer e toolkits' (fetch GET_mcp_servers w)))
     = (w', Some server)"
    unfolding getOrCreateMcpServer_def if_not_P[OF miss] Let_def .
  show ?thesis
  proof (cases "mcp_servers e")
    case Rejected
    with run show ?thesis by simp
  next
    case NotOk
    with run have "createMcpServer e ts (fetch GET_mcp_servers w) = (w', Some server)"
      by simp
    from createMcpServer_Some[OF this] show ?thesis by simp
  next
    case (Ok servers)
    obtain found ts' where f: "find_server servers ts = (found, ts')"
      by (cases "find_server servers ts")
    note m = find_server_mset[OF f]
    show ?thesis
    proof (cases found)
      case None
      with run Ok f
      have "createMcpServer e ts' (fetch GET_mcp_servers w) = (w', Some server)"
        by simp
      from createMcpServer_Some[OF this] m show ?thesis by simp
    next
      case (Some existingServer)
      with run Ok f m show ?thesis
        by (auto simp: Let_def)
    qed
  qed
qed

subsection \<open>The URL cache\<close>

lemma generateMcpUrl_hit:
  assumes "truthy (cachedMcpUrl w)" "cachedUserId w = Some u" "now_check e < mcpUrlExpiry w"
  shows "generateMcpUrl e sid u w = (w, cachedMcpUrl w)"
  using assms by (simp add: generateMcpUrl_def)

lemma generateMcpUrl_miss:
  assumes "\<not> (truthy (cachedMcpUrl w) \<and> cachedUserId w = Some u \<and> now_check e < mcpUrlExpiry w)"
  shows "generateMcpUrl e sid u w =
     (case mcp_servers_generate e sid u of
        Rejected \<Rightarrow> (fetch (POST_mcp_servers_generate sid u) w, None)
      | NotOk \<Rightarrow> (fetch (POST_mcp_servers_generate sid u) w, None)
      | Ok data \<Rightarrow>
          if \<not> truthy (mintedUrl data) then (fetch (POST_mcp_servers_generate sid u) w, None)
          else ((fetch (POST_mcp_servers_generate sid u) w)
                  \<lparr>cachedMcpUrl := mintedUrl data, cachedUserId := Some u,
                   mcpUrlExpiry := now_mint e + 30 * 60 * 1000\<rparr>,
                mintedUrl data))"
  unfolding generateMcpUrl_def if_not_P[OF assms] Let_def ..

lemma generateMcpUrl_Some:
  assumes "generateMcpUrl e sid u w = (w1, Some url)"
  shows "truthy (cachedMcpUrl w1) \<and> cachedMcpUrl w1 = Some url \<and> cachedUserId w1 = Some u
     \<and> (fetched w1 \<noteq> fetched w \<longrightarrow> mcpUrlExpiry w1 = now_mint e + 30 * 60 * 1000)"
proof (cases "truthy (cachedMcpUrl w) \<and> cachedUserId w = Some u \<and> now_check e < mcpUrlExpiry w")
  case True
  with assms show ?thesis by (auto simp: generateMcpUrl_def)
next
  case False
  from assms show ?thesis
    unfolding generateMcpUrl_miss[OF False]
    by (auto split: response.splits if_splits)
qed

lemma createMcpServer_frame:
  "cachedMcpUrl (fst (createMcpServer e ts w)) = cachedMcpUrl w"
  "cachedUserId (fst (createMcpServer e ts w)) = cachedUserId w"
  "mcpUrlExpiry (fst (createMcpServer e ts w)) = mcpUrlExpiry w"
  "fetched (fst (createMcpServer e ts w))
     = fetched w @ [POST_mcp_servers_custom (''anchor-'' @ string_of_nat (now_name e)) ts]"
  by (simp_all add: createMcpServer_def Let_def split: response.splits option.splits)

lemma getOrCreateMcpServer_miss_frame:
  assumes "cachedMcpServer w = None"
  shows "cachedMcpUrl (fst (getOrCreateMcpServer e ts w)) = cachedMcpUrl w"
    and "cachedUserId (fst (getOrCreateMcpServer e ts w)) = cachedUserId w"
    and "mcpUrlExpiry (fst (getOrCreateMcpServer e ts w)) = mcpUrlExpiry w"
    and "\<exists>calls. fetched (fst (getOrCreateMcpServer e ts w)) = fetched w @ GET_mcp_servers # calls"
  using assms
  by (simp_all add: getOrCreateMcpServer_def Let_def createMcpServer_frame
        split: response.splits option.splits prod.splits)

lemma toggleToolkit_cache:
  assumes "toggleToolkit e s enabled w = (w1, Inr ok)"
  shows "cachedMcpServer w1 = None \<and> cachedMcpUrl w1 = None \<and> mcpUrlExpiry w1 = 0
     \<and> cachedUserId w1 = None \<and> cachedToolkits w1 = []"
  using assms by (auto simp: toggleToolkit_def split: sum.splits)

lemma toggleToolkit_fresh:
  assumes toggle: "toggleToolkit e1 s enabled w = (w1, Inr ok)"
    and config: "composioRouter_getMcpConfig e2 w1 = (w2, Some config)"
  shows "cachedMcpServer w1 = None \<and> cachedMcpUrl w1 = None \<and> mcpUrlExpiry w1 = 0
    \<and> cachedUserId w1 = None \<and> cachedToolkits w1 = []
    \<and> (\<exists>serverId userId data calls.
          fetched w2 = fetched w1 @ GET_mcp_servers # calls @ [POST_mcp_servers_generate serverId userId]
          \<and> mcp_servers_generate e2 serverId userId = Ok data
          \<and> mintedUrl data = Some (cfg_url config)
          \<and> cachedMcpUrl w2 = Some (cfg_url config)
          \<and> mcpUrlExpiry w2 = now_mint e2 + 30 * 60 * 1000)"
proof -
  note c = toggleToolkit_cache[OF toggle]
  from config obtain names where g: "getMcpConfig e2 (Some names) w1 = (w2, Some config)"
    by (auto simp: composioRouter_getMcpConfig_def Let_def split: if_splits sum.splits)
  from g obtain userId wa server url
    where s: "getOrCreateMcpServer e2 names w1 = (wa, Some server)"
      and u: "generateMcpUrl e2 (srv_id server) userId wa = (w2, Some url)"
      and cfg: "cfg_url config = url"
    by (auto simp: getMcpConfig_def Let_def split: if_splits option.splits prod.splits)
  from c have none: "cachedMcpServer w1 = None" by simp
  note f = getOrCreateMcpServer_miss_frame[OF none, of e2 names, unfolded s fst_conv]
  from f(4) obtain calls where calls: "fetched wa = fetched w1 @ GET_mcp_servers # calls" ..
  from f(1) c have "cachedMcpUrl wa = None" by simp
  then have "\<not> (truthy (cachedMcpUrl wa) \<and> cachedUserId wa = Some userId
                \<and> now_check e2 < mcpUrlExpiry wa)"
    by (simp add: truthy_def)
  note m = generateMcpUrl_miss[OF this, of "srv_id server"]
  from u[unfolded m] obtain data
    where d: "mcp_servers_generate e2 (srv_id server) userId = Ok data"
      and d1: "mintedUrl data = Some url"
      and d2: "w2 = (fetch (POST_mcp_servers_generate (srv_id server) userId) wa)
                  \<lparr>cachedMcpUrl := mintedUrl data, cachedUserId := Some userId,
                   mcpUrlExpiry := now_mint e2 + 30 * 60 * 1000\<rparr>"
    by (auto split: response.splits if_splits)
  have "fetched w2 = fetched w1 @ GET_mcp_servers # calls
                       @ [POST_mcp_servers_generate (srv_id server) userId]"
    by (simp add: d2 calls)
  moreover have "cachedMcpUrl w2 = Some (cfg_url config)"
    "mcpUrlExpiry w2 = now_mint e2 + 30 * 60 * 1000"
    by (simp_all add: d2 d1 cfg)
  ultimately show ?thesis using c d d1 cfg by blast
qed

lemma toggleToolkit_completes:
  assumes "toggleToolkit e1 s enabled w = (w1, r)"
    and "composioRouter_getMcpConfig e2 w1 = (w2, Some config)"
    and "getUser e2 = getUser e1"
  shows "r = Inr True"
proof -
  from assms(2) obtain u where "requireAuth e2 = Inr u"
    by (auto simp: composioRouter_getMcpConfig_def Let_def split: if_splits sum.splits)
  with assms(3) have "requireAuth e1 = Inr u"
    by (simp add: requireAuth_def)
  with assms(1) show ?thesis by (auto simp: toggleToolkit_def)
qed

subsection \<open>The invariant\<close>

lemma find_update_where_other:
  assumes "\<And>r. k (f r) = k r" and "\<And>r. k r \<Longrightarrow> \<not> p r"
  shows "find k (update_where p f rows) = find k rows"
  by (induction rows) (auto simp: update_where_def assms)

lemma enabledImpliesConnectedI:
  assumes "\<And>r. r \<in> set (composioEnabledToolkits w) \<Longrightarrow> et_enabled r
             \<Longrightarrow> statusOf w (et_clerkUserId r) (et_toolkitName r) = Connected"
  shows "enabledImpliesConnected w"
  using assms by (simp add: enabledImpliesConnected_def list_all_iff)

lemma enabledImpliesConnectedD:
  assumes "enabledImpliesConnected w" "r \<in> set (composioEnabledToolkits w)" "et_enabled r"
  shows "statusOf w (et_clerkUserId r) (et_toolkitName r) = Connected"
  using assms by (simp add: enabledImpliesConnected_def list_all_iff)

lemma statusOf_cong:
  "composioConnections w1 = composioConnections w2 \<Longrightarrow> statusOf w1 u s = statusOf w2 u s"
  by (simp add: statusOf_def)

lemma disconnect_connections:
  assumes "requireAuth e = Inr u"
  shows "composioConnections (fst (disconnect e s w))
           = update_where (conn_key u s)
               (\<lambda>r. r\<lparr>conn_status := Disconnected, conn_connectedAt := None, conn_metadata := None\<rparr>)
               (composioConnections w)"
    and "composioEnabledToolkits (fst (disconnect e s w))
           = update_where (et_key u s) (\<lambda>r. r\<lparr>et_enabled := False\<rparr>) (composioEnabledToolkits w)"
  using assms
  by (simp_all add: disconnect_def Let_def split: option.splits parsed.splits)

lemma disconnect_unauthenticated:
  assumes "requireAuth e = Inl err"
  shows "disconnect e s w = (w, Inl err)"
  using assms by (simp add: disconnect_def)

lemma disconnect_preserves:
  assumes inv: "enabledImpliesConnected w"
  shows "enabledImpliesConnected (fst (disconnect e s w))"
proof (cases "requireAuth e")
  case (Inl err)
  with inv show ?thesis by (simp add: disconnect_unauthenticated)
next
  case (Inr u)
  note d = disconnect_connections[OF Inr, of s w]
  show ?thesis
  proof (rule enabledImpliesConnectedI)
    fix r
    assume r: "r \<in> set (composioEnabledToolkits (fst (disconnect e s w)))" and en: "et_enabled r"
    from r obtain r0 where r0: "r0 \<in> set (composioEnabledToolkits w)"
      and eq: "r = (if et_key u s r0 then r0\<lparr>et_enabled := False\<rparr> else r0)"
      unfolding d(2) by (auto dest: set_update_where)
    from eq en have other: "\<not> et_key u s r0" and same: "r = r0"
      by (auto split: if_splits)
    from enabledImpliesConnectedD[OF inv r0] en same
    have c: "statusOf w (et_clerkUserId r) (et_toolkitName r) = Connected" by simp
    have "find (conn_key (et_clerkUserId r) (et_toolkitName r)) (composioConnections (fst (disconnect e s w)))
        = find (conn_key (et_clerkUserId r) (et_toolkitName r)) (composioConnections w)"
      unfolding d(1) using other same
      by (intro find_update_where_other) (auto simp: conn_key_def et_key_def)
    with c show "statusOf (fst (disconnect e s w)) (et_clerkUserId r) (et_toolkitName r) = Connected"
      by (simp add: statusOf_def)
  qed
qed

lemma setEnabled_False_rows:
  assumes "r \<in> set (composioEnabledToolkits (setEnabled u s False w))" "et_enabled r"
  shows "r \<in> set (composioEnabledToolkits w)"
proof (cases "find (et_key u s) (composioEnabledToolkits w)")
  case None
  with assms show ?thesis by (auto simp: setEnabled_def)
next
  case (Some existing)
  with assms(1) obtain r0 where "r0 \<in> set (composioEnabledToolkits w)"
    and "r = (if et_id r0 = et_id existing then r0\<lparr>et_enabled := False\<rparr> else r0)"
    by (auto simp: setEnabled_def dest: set_update_where)
  with assms(2) show ?thesis by (auto split: if_splits)
qed

lemma toggleToolkit_False_preserves:
  assumes inv: "enabledImpliesConnected w"
  shows "enabledImpliesConnected (fst (toggleToolkit e s False w))"
proof (cases "requireAuth e")
  case (Inl err)
  with inv show ?thesis by (simp add: toggleToolkit_def)
next
  case (Inr u)
  then have w': "fst (toggleToolkit e s False w) = invalidateSession (setEnabled u s False w)"
    by (simp add: toggleToolkit_def)
  show ?thesis
  proof (rule enabledImpliesConnectedI)
    fix r
    assume "r \<in> set (composioEnabledToolkits (fst (toggleToolkit e s False w)))" and en: "et_enabled r"
    then have "r \<in> set (composioEnabledToolkits w)"
      by (simp add: w' setEnabled_False_rows)
    from enabledImpliesConnectedD[OF inv this en]
    show "statusOf (fst (toggleToolkit e s False w)) (et_clerkUserId r) (et_toolkitName r) = Connected"
      by (simp add: w' statusOf_def)
  qed
qed

lemma toggleToolkit_writes_flag:
  assumes "requireAuth e = Inr u"
  shows "enabledOf (fst (toggleToolkit e s b w)) u s = b"
    and "statusOf (fst (toggleToolkit e s b w)) u s = statusOf w u s"
  using assms by (simp_all add: toggleToolkit_def setEnabled_enabledOf statusOf_def)


lemma enable_rows:
  assumes d: "distinct (map et_id ens)"
    and ex: "find (et_key u s) ens = Some existing"
    and r: "r \<in> set (update_where (\<lambda>r. et_id r = et_id existing) (\<lambda>r. r\<lparr>et_enabled := b\<rparr>) ens)"
  shows "et_key u s r \<or> r \<in> set ens"
proof -
  from r obtain r0 where r0: "r0 \<in> set ens"
    and eq: "r = (if et_id r0 = et_id existing then r0\<lparr>et_enabled := b\<rparr> else r0)"
    by (auto dest: set_update_where)
  show ?thesis
  proof (cases "et_id r0 = et_id existing")
    case True
    from d have "inj_on et_id (set ens)" by (simp add: distinct_map)
    with True r0 find_Some_key[OF ex] have "r0 = existing" by (auto dest: inj_onD)
    with find_Some_key[OF ex] eq True show ?thesis by (simp add: et_key_def)
  next
    case False
    with eq r0 show ?thesis by simp
  qed
qed

lemma statusOf_Connected_update:
  assumes c: "statusOf w u0 s0 = Connected"
    and cs: "composioConnections w' = update_where p f (composioConnections w)"
    and f: "\<And>r. conn_clerkUserId (f r) = conn_clerkUserId r \<and> conn_toolkitName (f r) = conn_toolkitName r
                \<and> conn_status (f r) = Connected"
  shows "statusOf w' u0 s0 = Connected"
proof -
  from c obtain c0 where c0: "find (conn_key u0 s0) (composioConnections w) = Some c0"
    and st: "conn_status c0 = Connected"
    by (auto simp: statusOf_def split: option.splits)
  have "find (conn_key u0 s0) (update_where p f (composioConnections w))
          = map_option (\<lambda>r. if p r then f r else r) (find (conn_key u0 s0) (composioConnections w))"
    by (rule find_update_where) (simp add: conn_key_def f)
  with c0 st f show ?thesis by (simp add: statusOf_def cs)
qed

lemma statusOf_Connected_append:
  assumes c: "statusOf w u0 s0 = Connected"
    and cs: "composioConnections w' = composioConnections w @ new"
  shows "statusOf w' u0 s0 = Connected"
proof -
  from c obtain c0 where c0: "find (conn_key u0 s0) (composioConnections w) = Some c0"
    and st: "conn_status c0 = Connected"
    by (auto simp: statusOf_def split: option.splits)
  from find_append_Some[OF c0] st show ?thesis by (simp add: statusOf_def cs)
qed

lemma setEnabled_True_rows:
  assumes d: "distinct (map et_id (composioEnabledToolkits w))"
    and r: "r \<in> set (composioEnabledToolkits (setEnabled u s True w))"
  shows "et_key u s r \<or> r \<in> set (composioEnabledToolkits w)"
proof (cases "find (et_key u s) (composioEnabledToolkits w)")
  case None
  with r show ?thesis by (auto simp: setEnabled_def et_key_def)
next
  case (Some existing)
  with r have "r \<in> set (update_where (\<lambda>r. et_id r = et_id existing) (\<lambda>r. r\<lparr>et_enabled := True\<rparr>)
                         (composioEnabledToolkits w))"
    by (simp add: setEnabled_def)
  from enable_rows[OF d Some this] show ?thesis .
qed

lemma pollConnectionStatus_Connected_preserves:
  assumes auth: "requireAuth e = Inr u"
    and ex: "find (conn_key u s) (composioConnections w) = Some c"
    and st: "snd (pollConnectionStatus e s w) = Inr Connected"
    and d: "distinct (map et_id (composioEnabledToolkits w))"
    and inv: "enabledImpliesConnected w"
  shows "enabledImpliesConnected (fst (pollConnectionStatus e s w))"
proof -
  let ?w' = "fst (pollConnectionStatus e s w)"
  note p = pollConnectionStatus_unfold[OF auth surjective_pairing, of s w]
  from p(1) st have g: "snd (getConnectionStatus e s w) = Connected" by simp
  let ?f = "\<lambda>r. r\<lparr>conn_status := Connected, conn_connectedAt := Some (now e)\<rparr>"
  have cs: "composioConnections ?w' = update_where (conn_key u s) ?f (composioConnections w)"
    using p(2) g by simp
  let ?wm = "(fst (getConnectionStatus e s w))\<lparr>composioConnections := composioConnections ?w'\<rparr>"
  have w': "?w' = invalidateSession (setEnabled u s True ?wm)"
    using p(3)[OF g] p(2) g by simp
  have em: "composioEnabledToolkits ?wm = composioEnabledToolkits w" by simp
  have pair: "statusOf ?w' u s = Connected"
  proof -
    have "find (conn_key u s) (update_where (conn_key u s) ?f (composioConnections w))
            = Some (?f c)"
      using find_Some_key[OF ex] by (subst find_update_where) (simp_all add: conn_key_def ex)
    then show ?thesis by (simp add: statusOf_def cs)
  qed
  show ?thesis
  proof (rule enabledImpliesConnectedI)
    fix r
    assume r: "r \<in> set (composioEnabledToolkits ?w')" and en: "et_enabled r"
    from r have "r \<in> set (composioEnabledToolkits (setEnabled u s True ?wm))"
      by (subst (asm) w') simp
    from setEnabled_True_rows[OF _ this] d
    have "et_key u s r \<or> r \<in> set (composioEnabledToolkits w)" by (simp only: em)
    then show "statusOf ?w' (et_clerkUserId r) (et_toolkitName r) = Connected"
    proof
      assume "et_key u s r"
      with pair show ?thesis by (simp add: et_key_def)
    next
      assume "r \<in> set (composioEnabledToolkits w)"
      from enabledImpliesConnectedD[OF inv this en]
      show ?thesis by (rule statusOf_Connected_update[OF _ cs]) simp
    qed
  qed
qed


lemma autoEnable_enabledOf: "enabledOf (autoEnable u t w) u t"
proof (cases "find (et_key u t) (composioEnabledToolkits w)")
  case None
  then show ?thesis
    by (simp add: autoEnable_def enabledOf_def find_append_None et_key_def)
next
  case (Some existing)
  have "find (et_key u t)
          (update_where (\<lambda>r. et_id r = et_id existing) (\<lambda>r. r\<lparr>et_enabled := True\<rparr>)
             (composioEnabledToolkits w))
        = Some (existing\<lparr>et_enabled := True\<rparr>)"
    by (subst find_update_where) (simp_all add: et_key_def Some)
  with Some show ?thesis by (simp add: autoEnable_def enabledOf_def)
qed

lemma autoEnable_connections [simp]:
  "composioConnections (autoEnable u t w) = composioConnections w"
  by (simp add: autoEnable_def split: option.splits)

lemma autoEnable_rows:
  assumes d: "distinct (map et_id (composioEnabledToolkits w))"
    and r: "r \<in> set (composioEnabledToolkits (autoEnable u t w))"
  shows "et_key u t r \<or> r \<in> set (composioEnabledToolkits w)"
proof (cases "find (et_key u t) (composioEnabledToolkits w)")
  case None
  with r show ?thesis by (auto simp: autoEnable_def et_key_def)
next
  case (Some existing)
  show ?thesis
  proof (cases "et_enabled existing")
    case True
    with r Some show ?thesis by (simp add: autoEnable_def)
  next
    case False
    with r Some
    have "r \<in> set (update_where (\<lambda>r. et_id r = et_id existing) (\<lambda>r. r\<lparr>et_enabled := True\<rparr>)
                      (composioEnabledToolkits w))"
      by (simp add: autoEnable_def)
    from enable_rows[OF d Some this] show ?thesis .
  qed
qed

lemma upsertAccount_enabled [simp]:
  "composioEnabledToolkits (upsertAccount e u t a st w) = composioEnabledToolkits w"
  by (simp add: upsertAccount_def Let_def split: option.splits)

lemma upsertAccount_statusOf: "statusOf (upsertAccount e u t a st w) u t = st"
proof (cases "find (conn_key u t) (composioConnections w)")
  case None
  then show ?thesis
    by (simp add: upsertAccount_def Let_def statusOf_def find_append_None conn_key_def)
next
  case (Some existing)
  have "find (conn_key u t)
          (update_where (\<lambda>r. conn_id r = conn_id existing)
             (\<lambda>r. r\<lparr>conn_status := st,
                     conn_connectedAt := (if st = Connected then Some (now e) else None),
                     conn_metadata := Some (JSON_stringify e (acc_id a))\<rparr>)
             (composioConnections w))
        = Some (existing\<lparr>conn_status := st,
                     conn_connectedAt := (if st = Connected then Some (now e) else None),
                     conn_metadata := Some (JSON_stringify e (acc_id a))\<rparr>)"
    by (subst find_update_where) (simp_all add: conn_key_def Some)
  with Some show ?thesis by (simp add: upsertAccount_def Let_def statusOf_def)
qed

lemma upsertAccount_Connected_keeps:
  assumes "statusOf w u0 s0 = Connected"
  shows "statusOf (upsertAccount e u t a Connected w) u0 s0 = Connected"
proof (cases "find (conn_key u t) (composioConnections w)")
  case None
  show ?thesis
    by (rule statusOf_Connected_append[OF assms]) (simp add: upsertAccount_def Let_def None)
next
  case (Some existing)
  have "composioConnections (upsertAccount e u t a Connected w)
      = update_where (\<lambda>r. conn_id r = conn_id existing)
          (\<lambda>r. r\<lparr>conn_status := Connected, conn_connectedAt := Some (now e),
                  conn_metadata := Some (JSON_stringify e (acc_id a))\<rparr>)
          (composioConnections w)"
    by (simp add: upsertAccount_def Let_def Some)
  from statusOf_Connected_update[OF assms this] show ?thesis by simp
qed

lemma syncAccount_Connected:
  assumes run: "syncAccount e u a w = Some w'"
    and st: "accountStatus e a = Connected"
  obtains t where "accountToolkitName a = Some t" and "t \<noteq> []"
    and "w' = autoEnable u t (upsertAccount e u t a Connected w)"
  using assms by (auto simp: syncAccount_def Let_def split: option.splits if_splits)

lemma syncAccount_Connected_preserves:
  assumes run: "syncAccount e u a w = Some w'"
    and st: "accountStatus e a = Connected"
    and d: "distinct (map et_id (composioEnabledToolkits w))"
    and inv: "enabledImpliesConnected w"
  shows "enabledImpliesConnected w'"
proof -
  from run st obtain t where w': "w' = autoEnable u t (upsertAccount e u t a Connected w)"
    by (rule syncAccount_Connected)
  let ?w1 = "upsertAccount e u t a Connected w"
  have pair: "statusOf w' u t = Connected"
    using upsertAccount_statusOf[of e u t a Connected w] by (simp add: w' statusOf_def)
  show ?thesis
  proof (rule enabledImpliesConnectedI)
    fix r
    assume r: "r \<in> set (composioEnabledToolkits w')" and en: "et_enabled r"
    from d have "distinct (map et_id (composioEnabledToolkits ?w1))" by simp
    from autoEnable_rows[OF this r[unfolded w']]
    have "et_key u t r \<or> r \<in> set (composioEnabledToolkits w)" by simp
    then show "statusOf w' (et_clerkUserId r) (et_toolkitName r) = Connected"
    proof
      assume "et_key u t r"
      with pair show ?thesis by (simp add: et_key_def)
    next
      assume "r \<in> set (composioEnabledToolkits w)"
      from upsertAccount_Connected_keeps[OF enabledImpliesConnectedD[OF inv this en], of e u t a]
      show ?thesis by (simp add: w' statusOf_def)
    qed
  qed
qed


lemma map_et_id_update_where [simp]:
  "map et_id (update_where p (\<lambda>r. r\<lparr>et_enabled := b\<rparr>) rows) = map et_id rows"
  by (induction rows) (simp_all add: update_where_def)

lemma set_et_id_update_where:
  "r \<in> set (update_where p (\<lambda>r. r\<lparr>et_enabled := b\<rparr>) rows) \<Longrightarrow> et_id r \<in> et_id ` set rows"
  by (auto simp: update_where_def)

lemma upsertAccount_next_id: "next_id w \<le> next_id (upsertAccount e u t a st w)"
  by (simp add: upsertAccount_def Let_def split: option.splits)

lemma upsertAccount_idsFresh:
  assumes "enabledIdsFresh w"
  shows "enabledIdsFresh (upsertAccount e u t a st w)"
  using assms upsertAccount_next_id[of w e u t a st]
  by (auto simp: enabledIdsFresh_def list_all_iff)

lemma autoEnable_idsFresh:
  assumes "enabledIdsFresh w"
  shows "enabledIdsFresh (autoEnable u t w)"
proof (cases "find (et_key u t) (composioEnabledToolkits w)")
  case None
  with assms show ?thesis
    by (auto simp: autoEnable_def enabledIdsFresh_def list_all_iff)
next
  case (Some existing)
  with assms show ?thesis
    by (auto simp: autoEnable_def enabledIdsFresh_def list_all_iff dest!: set_et_id_update_where)
qed

lemma syncAccount_idsFresh:
  assumes "syncAccount e u a w = Some w'" "enabledIdsFresh w"
  shows "enabledIdsFresh w'"
  using assms
  by (auto simp: syncAccount_def Let_def upsertAccount_idsFresh autoEnable_idsFresh
           split: option.splits if_splits)

lemma syncLoop_preserves:
  assumes "\<forall>a \<in> set accounts. accountStatus e a = Connected"
    and "enabledIdsFresh w" and "enabledImpliesConnected w"
  shows "enabledImpliesConnected (fst (syncLoop e u accounts w n))"
  using assms
proof (induction accounts arbitrary: w n)
  case Nil
  then show ?case by simp
next
  case (Cons a accounts)
  show ?case
  proof (cases "syncAccount e u a w")
    case None
    with Cons show ?thesis by simp
  next
    case (Some w')
    from Cons.prems have st: "accountStatus e a = Connected" by simp
    from Cons.prems(2) have d: "distinct (map et_id (composioEnabledToolkits w))"
      by (simp add: enabledIdsFresh_def)
    note i = syncAccount_Connected_preserves[OF Some st d Cons.prems(3)]
    note f = syncAccount_idsFresh[OF Some Cons.prems(2)]
    from Cons.IH[OF _ f i] Cons.prems(1) Some show ?thesis by simp
  qed
qed

lemma getConnectedAccounts_tables [simp]:
  "composioConnections (fst (getConnectedAccounts e w)) = composioConnections w"
  "composioEnabledToolkits (fst (getConnectedAccounts e w)) = composioEnabledToolkits w"
  "next_id (fst (getConnectedAccounts e w)) = next_id w"
  by (simp_all add: getConnectedAccounts_def Let_def split: response.splits option.splits)

lemma syncConnections_all_ACTIVE_preserves:
  assumes all: "\<forall>a \<in> set (snd (getConnectedAccounts e w)). accountStatus e a = Connected"
    and ids: "enabledIdsFresh w" and inv: "enabledImpliesConnected w"
  shows "enabledImpliesConnected (fst (syncConnections e w))"
proof (cases "requireAuth e")
  case (Inl err)
  with inv show ?thesis by (simp add: syncConnections_def)
next
  case (Inr u)
  obtain w1 accounts where g: "getConnectedAccounts e w = (w1, accounts)"
    by (cases "getConnectedAccounts e w")
  have t: "composioConnections w1 = composioConnections w"
    "composioEnabledToolkits w1 = composioEnabledToolkits w" "next_id w1 = next_id w"
    using getConnectedAccounts_tables[of e w] by (simp_all add: g)
  from ids t have ids1: "enabledIdsFresh w1" by (simp add: enabledIdsFresh_def)
  from inv t have inv1: "enabledImpliesConnected w1"
    by (simp add: enabledImpliesConnected_def statusOf_def)
  from all g have all1: "\<forall>a \<in> set accounts. accountStatus e a = Connected" by simp
  from syncLoop_preserves[OF all1 ids1 inv1, of u 0] Inr g show ?thesis
    by (auto simp add: syncConnections_def split: prod.splits)
qed

subsection \<open>The two status mappings\<close>

lemma mapStatus_table:
  assumes "toUpperCase e = asciiUpperCase"
  shows "mapStatus e (Some ''ACTIVE'') = Connected"
    and "mapStatus e (Some ''INITIATED'') = Pending"
    and "mapStatus e (Some ''INITIALIZING'') = Pending"
    and "mapStatus e (Some ''FAILED'') = Error"
    and "mapStatus e (Some ''EXPIRED'') = Error"
    and "mapStatus e (Some ''INACTIVE'') = Error"
    and "mapStatus e None = Disconnected"
  by (simp_all add: mapStatus_def assms asciiUpperCase_def)

lemma accountStatus_mapStatus:
  "accountStatus e a = (case mapStatus e (acc_status a) of
                        Connected \<Rightarrow> Connected
                      | Disconnected \<Rightarrow> Disconnected
                      | Pending \<Rightarrow> Disconnected
                      | Error \<Rightarrow> Disconnected)"
  by (simp add: accountStatus_def mapStatus_def Let_def)

lemma autoEnable_statusOf [simp]: "statusOf (autoEnable u t w) u0 s0 = statusOf w u0 s0"
  by (simp add: statusOf_def)

lemma syncAccount_statusOf:
  assumes "syncAccount e u a w = Some w'"
  shows "\<exists>t. accountToolkitName a = Some t \<and> statusOf w' u t = accountStatus e a"
  using assms
  by (auto simp: syncAccount_def Let_def upsertAccount_statusOf split: option.splits if_splits)

section \<open>The claims\<close>

text \<open>
  C1. The claim is that syncConnections stores, for every remote account, the status
  that the mapping of getConnectionStatus gives. On the code: the remote reports the
  github account of u1 as INITIATED; syncConnections processes it (one account synced)
  and the status stored for the pair is \<open>disconnected\<close>, while getConnectionStatus, and
  its mapping applied to the same account, give \<open>pending\<close>. By \<open>accountStatus_mapStatus\<close>
  the two agree exactly on accounts whose mapped status is connected or disconnected.
\<close>

theorem syncConnections_status_INITIATED:
  "snd (syncConnections (remote_github ''INITIATED'') (world_github Pending False)) = Inr 1
   \<and> statusOf (fst (syncConnections (remote_github ''INITIATED'') (world_github Pending False)))
        ''u1'' ''github'' = Disconnected
   \<and> snd (getConnectionStatus (remote_github ''INITIATED'') ''github'' (world_github Pending False))
        = Pending
   \<and> mapStatus (remote_github ''INITIATED'') (acc_status (github_account ''INITIATED'')) = Pending
   \<and> accountStatus (remote_github ''INITIATED'') (github_account ''INITIATED'') = Disconnected"
proof -
  let ?e = "remote_github ''INITIATED''" and ?w = "world_github Pending False"
  have u: "requireAuth ?e = Inr ''u1''" "getClerkUserId ?e = Some ''u1''" "isConfigured ?e"
    by (simp_all add: requireAuth_def getClerkUserId_def isConfigured_def remote_github_def)
  have acc: "getConnectedAccounts ?e ?w
      = (fetch (GET_connected_accounts ''u1'' None) ?w, [github_account ''INITIATED''])"
    by (simp add: getConnectedAccounts_def u Let_def) (simp add: remote_github_def)
  have st: "accountStatus (remote_github ''INITIATED'') (github_account ''INITIATED'') = Disconnected"
    "accountToolkitName (github_account ''INITIATED'') = Some ''github''"
    "mapStatus (remote_github ''INITIATED'') (acc_status (github_account ''INITIATED'')) = Pending"
    by (simp_all add: accountStatus_def accountToolkitName_def github_account_def
          remote_github_def asciiUpperCase_def js_or_def truthy_def mapStatus_def)
  have g: "snd (getConnectionStatus ?e ''github'' ?w) = Pending"
    by (simp add: getConnectionStatus_def u Let_def)
       (simp add: remote_github_def github_account_def matchesToolkit_def mapStatus_def asciiUpperCase_def)
  have s: "syncConnections ?e ?w
     = (upsertAccount ?e ''u1'' ''github'' (github_account ''INITIATED'') Disconnected
          (fetch (GET_connected_accounts ''u1'' None) ?w), Inr 1)"
    by (simp add: syncConnections_def u acc syncAccount_def st Let_def)
  show ?thesis
    unfolding s using st g by (simp add: upsertAccount_statusOf)
qed

text \<open>
  C2, as stated: after every completed connect, disconnect, toggleToolkit,
  pollConnectionStatus and syncConnections no enabled row is true while the status of
  its pair is not connected. This fails: with a pending github connection of u1 and the
  flag false, toggleToolkit to true succeeds and leaves the flag true and the status
  pending.
\<close>

theorem toggleToolkit_breaks_invariant:
  "enabledImpliesConnected (world_github Pending False)
   \<and> toggleToolkit (remote_github ''INITIATED'') ''github'' True (world_github Pending False)
       = (invalidateSession ((world_github Pending False)\<lparr>composioEnabledToolkits :=
            [\<lparr>et_id = 1, et_clerkUserId = ''u1'', et_toolkitName = ''github'', et_enabled = True\<rparr>]\<rparr>),
          Inr True)
   \<and> \<not> enabledImpliesConnected
         (fst (toggleToolkit (remote_github ''INITIATED'') ''github'' True (world_github Pending False)))"
proof -
  let ?e = "remote_github ''INITIATED''" and ?w = "world_github Pending False"
  have a: "enabledImpliesConnected ?w"
    by (simp add: enabledImpliesConnected_def world_github_def world0_def)
  have b: "toggleToolkit ?e ''github'' True ?w
       = (invalidateSession (?w\<lparr>composioEnabledToolkits :=
            [\<lparr>et_id = 1, et_clerkUserId = ''u1'', et_toolkitName = ''github'', et_enabled = True\<rparr>]\<rparr>),
          Inr True)"
    by (simp add: toggleToolkit_def requireAuth_def remote_github_def setEnabled_def
          world_github_def world0_def et_key_def update_where_def)
  have c: "\<not> enabledImpliesConnected (fst (toggleToolkit ?e ''github'' True ?w))"
    unfolding b
    by (simp add: enabledImpliesConnected_def statusOf_def world_github_def world0_def conn_key_def)
  from a b c show ?thesis by blast
qed

text \<open>
  C2, amended. If the invariant holds (and the ids of the enabled rows are distinct and
  below the counter), then it still holds after disconnect, after toggleToolkit to
  false, after a pollConnectionStatus that returns \<open>connected\<close> for a pair that has a
  connection row, and after a syncConnections in which every remote account is ACTIVE.
  toggleToolkit to true by an authenticated user sets the flag of the pair to true and
  leaves the status of the pair as it was, whatever it is.
\<close>

theorem enabled_invariant_maintained:
  assumes inv: "enabledImpliesConnected w" and ids: "enabledIdsFresh w"
  shows "enabledImpliesConnected (fst (disconnect e s w))
    \<and> enabledImpliesConnected (fst (toggleToolkit e s False w))
    \<and> ((\<forall>u. requireAuth e = Inr u \<longrightarrow> find (conn_key u s) (composioConnections w) \<noteq> None)
         \<and> snd (pollConnectionStatus e s w) = Inr Connected
       \<longrightarrow> enabledImpliesConnected (fst (pollConnectionStatus e s w)))
    \<and> ((\<forall>a \<in> set (snd (getConnectedAccounts e w)). accountStatus e a = Connected)
       \<longrightarrow> enabledImpliesConnected (fst (syncConnections e w)))
    \<and> (\<forall>u. requireAuth e = Inr u \<longrightarrow>
          enabledOf (fst (toggleToolkit e s True w)) u s
          \<and> statusOf (fst (toggleToolkit e s True w)) u s = statusOf w u s)"
proof -
  from ids have d: "distinct (map et_id (composioEnabledToolkits w))"
    by (simp add: enabledIdsFresh_def)
  have poll: "enabledImpliesConnected (fst (pollConnectionStatus e s w))"
    if ex: "\<forall>u. requireAuth e = Inr u \<longrightarrow> find (conn_key u s) (composioConnections w) \<noteq> None"
      and st: "snd (pollConnectionStatus e s w) = Inr Connected"
  proof (cases "requireAuth e")
    case (Inl err)
    with st show ?thesis by (simp add: pollConnectionStatus_def)
  next
    case (Inr u)
    with ex obtain c where "find (conn_key u s) (composioConnections w) = Some c" by auto
    from pollConnectionStatus_Connected_preserves[OF Inr this st d inv] show ?thesis .
  qed
  show ?thesis
    using disconnect_preserves[OF inv] toggleToolkit_False_preserves[OF inv] poll
      syncConnections_all_ACTIVE_preserves[OF _ ids inv] toggleToolkit_writes_flag
    by blast
qed

theorem enabled_invariant_maintained_witness:
  "enabledImpliesConnected (world_github Connected True)
   \<and> enabledIdsFresh (world_github Connected True)
   \<and> enabledImpliesConnected (fst (disconnect (remote_github ''ACTIVE'') ''github'' (world_github Connected True)))
   \<and> enabledImpliesConnected (fst (syncConnections (remote_github ''ACTIVE'') (world_github Connected True)))
   \<and> enabledImpliesConnected (fst (pollConnectionStatus (remote_github ''ACTIVE'') ''github''
        (world_github Connected True)))"
proof -
  let ?e = "remote_github ''ACTIVE''" and ?w = "world_github Connected True"
  have a: "enabledImpliesConnected ?w"
    by (simp add: enabledImpliesConnected_def statusOf_def world_github_def world0_def conn_key_def)
  have b: "enabledIdsFresh ?w"
    by (simp add: enabledIdsFresh_def world_github_def world0_def)
  have u: "requireAuth ?e = Inr ''u1''" "getClerkUserId ?e = Some ''u1''" "isConfigured ?e"
    by (simp_all add: requireAuth_def getClerkUserId_def isConfigured_def remote_github_def)
  have f: "\<forall>u. requireAuth ?e = Inr u \<longrightarrow> find (conn_key u ''github'') (composioConnections ?w) \<noteq> None"
    by (simp add: u world_github_def world0_def conn_key_def)
  have acc: "snd (getConnectedAccounts ?e ?w) = [github_account ''ACTIVE'']"
    by (simp add: getConnectedAccounts_def u Let_def) (simp add: remote_github_def)
  have all: "\<forall>a \<in> set (snd (getConnectedAccounts ?e ?w)). accountStatus ?e a = Connected"
    unfolding acc
    by (simp add: accountStatus_def github_account_def remote_github_def asciiUpperCase_def)
  have g: "snd (getConnectionStatus ?e ''github'' ?w) = Connected"
    by (simp add: getConnectionStatus_def u Let_def)
       (simp add: remote_github_def github_account_def matchesToolkit_def mapStatus_def asciiUpperCase_def)
  have p: "snd (pollConnectionStatus ?e ''github'' ?w) = Inr Connected"
    using pollConnectionStatus_unfold(1)[OF u(1) surjective_pairing, of "''github''" ?w] g by simp
  note t = enabled_invariant_maintained[OF a b, of ?e "''github''"]
  from t a b f all p show ?thesis by blast
qed

text \<open>
  C3. pollConnectionStatus by an authenticated user for a pair that has a connection row.
  The status returned and stored is the one getConnectionStatus gives: the mapping of
  the status of the matching account the remote lists, which is \<open>connected\<close> exactly
  when that status, upper-cased by the language's own \<^verbatim>\<open>toUpperCase\<close> (whatever function
  that is), equals ACTIVE. When it is \<open>connected\<close>, every row of the pair has status
  connected and connectedAt set to the time of the call, the enabled flag of the pair is
  true and the session cache is cleared. Otherwise the rows of the pair have the mapped
  status and no connectedAt, and the enabled table is unchanged.
\<close>

theorem pollConnectionStatus_existing:
  assumes auth: "requireAuth e = Inr u"
    and ex: "find (conn_key u s) (composioConnections w) = Some c"
    and run: "pollConnectionStatus e s w = (w', r)"
  shows "r = Inr (snd (getConnectionStatus e s w))
    \<and> (\<forall>accounts a. isConfigured e \<and> connected_accounts e u (Some s) = Ok accounts
            \<and> find (matchesToolkit s) accounts = Some a
          \<longrightarrow> snd (getConnectionStatus e s w) = mapStatus e (acc_status a))
    \<and> (snd (getConnectionStatus e s w) = Connected \<longleftrightarrow>
         (\<exists>accounts a. isConfigured e \<and> connected_accounts e u (Some s) = Ok accounts
            \<and> find (matchesToolkit s) accounts = Some a
            \<and> map_option (toUpperCase e) (acc_status a) = Some ''ACTIVE''))
    \<and> (snd (getConnectionStatus e s w) = Connected \<longrightarrow>
          find (conn_key u s) (composioConnections w')
            = Some (c\<lparr>conn_status := Connected, conn_connectedAt := Some (now e)\<rparr>)
          \<and> (\<forall>c' \<in> set (composioConnections w'). conn_key u s c' \<longrightarrow>
                conn_status c' = Connected \<and> conn_connectedAt c' = Some (now e))
          \<and> enabledOf w' u s
          \<and> cachedMcpServer w' = None \<and> cachedMcpUrl w' = None \<and> mcpUrlExpiry w' = 0
          \<and> cachedUserId w' = None \<and> cachedToolkits w' = [])
    \<and> (snd (getConnectionStatus e s w) \<noteq> Connected \<longrightarrow>
          find (conn_key u s) (composioConnections w')
            = Some (c\<lparr>conn_status := snd (getConnectionStatus e s w), conn_connectedAt := None\<rparr>)
          \<and> (\<forall>c' \<in> set (composioConnections w'). conn_key u s c' \<longrightarrow>
                conn_status c' = snd (getConnectionStatus e s w) \<and> conn_connectedAt c' = None)
          \<and> composioEnabledToolkits w' = composioEnabledToolkits w)"
proof -
  define st where "st = snd (getConnectionStatus e s w)"
  define cs where "cs = update_where (conn_key u s)
             (\<lambda>r. r\<lparr>conn_status := st,
                     conn_connectedAt := (if st = Connected then Some (now e) else None)\<rparr>)
             (composioConnections w)"
  note p = pollConnectionStatus_unfold[OF auth run, folded st_def, folded cs_def]
  have uid: "getClerkUserId e = Some u"
    using auth requireAuth_cases[of e] by auto
  have iff: "st = Connected \<longleftrightarrow>
         (\<exists>accounts a. isConfigured e \<and> connected_accounts e u (Some s) = Ok accounts
            \<and> find (matchesToolkit s) accounts = Some a
            \<and> map_option (toUpperCase e) (acc_status a) = Some ''ACTIVE'')"
    unfolding st_def getConnectionStatus_Connected_iff by (simp add: uid)
  have obs: "\<forall>accounts a. isConfigured e \<and> connected_accounts e u (Some s) = Ok accounts
            \<and> find (matchesToolkit s) accounts = Some a
          \<longrightarrow> st = mapStatus e (acc_status a)"
    unfolding st_def using getConnectionStatus_observed[OF _ uid] by blast
  have fnd: "find (conn_key u s) cs
      = Some (c\<lparr>conn_status := st,
                conn_connectedAt := (if st = Connected then Some (now e) else None)\<rparr>)"
    unfolding cs_def using find_Some_key[OF ex]
    by (subst find_update_where) (simp_all add: conn_key_def ex)
  have all: "\<forall>c' \<in> set cs. conn_key u s c' \<longrightarrow>
       conn_status c' = st \<and> conn_connectedAt c' = (if st = Connected then Some (now e) else None)"
    unfolding cs_def by (rule update_where_all) simp
  have yes: "enabledOf w' u s \<and> cachedMcpServer w' = None \<and> cachedMcpUrl w' = None
      \<and> mcpUrlExpiry w' = 0 \<and> cachedUserId w' = None \<and> cachedToolkits w' = []"
    if "st = Connected"
    using p(3)[OF that] by (simp add: setEnabled_enabledOf)
  have no: "composioEnabledToolkits w' = composioEnabledToolkits w" if "st \<noteq> Connected"
    using p(4)[OF that] by simp
  show ?thesis
    unfolding st_def[symmetric] p(2)
    using p(1) obs iff fnd all yes no by auto
qed


theorem pollConnectionStatus_existing_witness:
  "requireAuth (remote_github ''active'') = Inr ''u1''
   \<and> snd (pollConnectionStatus (remote_github ''active'') ''github'' (world_github Pending False))
       = Inr Connected
   \<and> statusOf (fst (pollConnectionStatus (remote_github ''active'') ''github'' (world_github Pending False)))
       ''u1'' ''github'' = Connected
   \<and> enabledOf (fst (pollConnectionStatus (remote_github ''active'') ''github'' (world_github Pending False)))
       ''u1'' ''github''
   \<and> snd (pollConnectionStatus (remote_github ''EXPIRED'') ''github'' (world_github Pending False))
       = Inr Error
   \<and> statusOf (fst (pollConnectionStatus (remote_github ''EXPIRED'') ''github'' (world_github Pending False)))
       ''u1'' ''github'' = Error
   \<and> \<not> enabledOf (fst (pollConnectionStatus (remote_github ''EXPIRED'') ''github'' (world_github Pending False)))
       ''u1'' ''github''"
proof -
  let ?e = "remote_github ''active''" and ?e' = "remote_github ''EXPIRED''"
  let ?w = "world_github Pending False"
  have h: "requireAuth ?e = Inr ''u1''" and h': "requireAuth ?e' = Inr ''u1''"
    by (simp_all add: requireAuth_def remote_github_def)
  have f: "find (conn_key ''u1'' ''github'') (composioConnections ?w)
             = Some (hd (composioConnections ?w))"
    by (simp add: world_github_def world0_def conn_key_def)
  have g: "snd (getConnectionStatus ?e ''github'' ?w) = Connected"
    by (simp add: getConnectionStatus_def isConfigured_def getClerkUserId_def remote_github_def
          github_account_def matchesToolkit_def mapStatus_def asciiUpperCase_def)
  have g': "snd (getConnectionStatus ?e' ''github'' ?w) = Error"
    by (simp add: getConnectionStatus_def isConfigured_def getClerkUserId_def remote_github_def
          github_account_def matchesToolkit_def mapStatus_def asciiUpperCase_def)
  have en: "\<not> enabledOf ?w ''u1'' ''github''"
    by (simp add: enabledOf_def world_github_def world0_def et_key_def)
  note t = pollConnectionStatus_existing[OF h f surjective_pairing]
  note t' = pollConnectionStatus_existing[OF h' f surjective_pairing]
  have a: "snd (pollConnectionStatus ?e ''github'' ?w) = Inr Connected
   \<and> statusOf (fst (pollConnectionStatus ?e ''github'' ?w)) ''u1'' ''github'' = Connected
   \<and> enabledOf (fst (pollConnectionStatus ?e ''github'' ?w)) ''u1'' ''github''"
    using t g by (simp add: statusOf_def)
  have b: "snd (pollConnectionStatus ?e' ''github'' ?w) = Inr Error
   \<and> statusOf (fst (pollConnectionStatus ?e' ''github'' ?w)) ''u1'' ''github'' = Error
   \<and> \<not> enabledOf (fst (pollConnectionStatus ?e' ''github'' ?w)) ''u1'' ''github''"
    using t' g' en by (simp add: statusOf_def enabledOf_def)
  from a b h show ?thesis by blast
qed

text \<open>
  C4. For every toolkit slug, connect with no authenticated user (no user, or a user
  without an id) fails with the UNAUTHORIZED error and returns the world as it was: no
  remote request has been issued, no URL opened and no row written.
\<close>

theorem connect_unauthenticated:
  assumes "getUser e = None \<or> (\<exists>user. getUser e = Some user \<and> clerk_id user = [])"
  shows "connect e s displayName w = (w, Inl (UNAUTHORIZED ''Login required for Connectors''))"
proof -
  from assms have "requireAuth e = Inl (UNAUTHORIZED ''Login required for Connectors'')"
    by (auto simp: requireAuth_def)
  then show ?thesis by (simp add: connect_def)
qed

theorem connect_unauthenticated_witness:
  "getUser ((remote_github ''ACTIVE'')\<lparr>getUser := None\<rparr>) = None
   \<and> connect ((remote_github ''ACTIVE'')\<lparr>getUser := None\<rparr>) ''github'' ''GitHub'' world0
       = (world0, Inl (UNAUTHORIZED ''Login required for Connectors''))"
proof -
  have h: "getUser ((remote_github ''ACTIVE'')\<lparr>getUser := None\<rparr>) = None
           \<or> (\<exists>user. getUser ((remote_github ''ACTIVE'')\<lparr>getUser := None\<rparr>) = Some user
                      \<and> clerk_id user = [])"
    by simp
  from connect_unauthenticated[OF h] show ?thesis by simp
qed

text \<open>
  C5. connect by an authenticated user when getAuthConfigId resolves no auth config:
  the call fails with the INTERNAL\_SERVER\_ERROR whose message names the toolkit and
  mentions manual API key setup, a connection row of the pair exists and every such row
  has status error, and the enabled table is exactly as before, so a flag that was false
  (or missing) stays so.
\<close>

theorem connect_no_auth_config:
  assumes auth: "requireAuth e = Inr u"
    and noconfig: "snd (getAuthConfigId e s w) = None"
    and run: "connect e s displayName w = (w', r)"
  shows "r = Inl (INTERNAL_SERVER_ERROR
                   (''Cannot connect to '' @ displayName @
                    ''. This app may not support OAuth authentication or requires manual API key setup in Composio dashboard.''))
    \<and> (\<exists>c. find (conn_key u s) (composioConnections w') = Some c \<and> conn_status c = Error)
    \<and> (\<forall>c \<in> set (composioConnections w'). conn_key u s c \<longrightarrow> conn_status c = Error)
    \<and> statusOf w' u s = Error
    \<and> composioEnabledToolkits w' = composioEnabledToolkits w
    \<and> enabledOf w' u s = enabledOf w u s"
proof -
  define w1 where "w1 = (case find (conn_key u s) (composioConnections w) of
                      Some existing \<Rightarrow>
                        w\<lparr>composioConnections :=
                            update_where (\<lambda>r. conn_id r = conn_id existing)
                              (\<lambda>r. r\<lparr>conn_status := Pending\<rparr>) (composioConnections w)\<rparr>
                    | None \<Rightarrow>
                        w\<lparr>composioConnections :=
                            composioConnections w @
                              [\<lparr>conn_id = next_id w, conn_clerkUserId = u,
                                conn_toolkitName = s, conn_displayName = displayName,
                                conn_status = Pending, conn_connectedAt = None,
                                conn_metadata = None\<rparr>],
                          next_id := Suc (next_id w)\<rparr>)"
  have e1: "composioEnabledToolkits w1 = composioEnabledToolkits w"
    by (simp add: w1_def split: option.splits)
  have f1: "\<exists>c. find (conn_key u s) (composioConnections w1) = Some c"
  proof (cases "find (conn_key u s) (composioConnections w)")
    case None
    then show ?thesis by (simp add: w1_def find_append_None conn_key_def)
  next
    case (Some existing)
    have "find (conn_key u s)
            (update_where (\<lambda>r. conn_id r = conn_id existing) (\<lambda>r. r\<lparr>conn_status := Pending\<rparr>)
               (composioConnections w)) = Some (existing\<lparr>conn_status := Pending\<rparr>)"
      by (subst find_update_where) (simp_all add: conn_key_def Some)
    with Some show ?thesis by (simp add: w1_def)
  qed
  obtain w2 a where az: "authorizeToolkit e s w1 = (w2, a)"
    by (cases "authorizeToolkit e s w1")
  have "snd (getAuthConfigId e s w1) = None"
    using noconfig getAuthConfigId_result[of e s w1 w] by simp
  from authorizeToolkit_None[OF this] az have a: "a = None" by simp
  have t2: "composioConnections w2 = composioConnections w1"
    "composioEnabledToolkits w2 = composioEnabledToolkits w1"
    using authorizeToolkit_tables[of e s w1] by (simp_all add: az)
  define cs where "cs = update_where (conn_key u s) (\<lambda>r. r\<lparr>conn_status := Error\<rparr>)
                          (composioConnections w1)"
  from run auth az a have r: "r = Inl (INTERNAL_SERVER_ERROR
                   (''Cannot connect to '' @ displayName @
                    ''. This app may not support OAuth authentication or requires manual API key setup in Composio dashboard.''))"
    and w': "w' = w2\<lparr>composioConnections := cs\<rparr>"
    by (simp_all add: connect_def Let_def w1_def[symmetric] cs_def t2)
  have c': "composioConnections w' = cs" and e': "composioEnabledToolkits w' = composioEnabledToolkits w"
    by (simp_all add: w' t2 e1)
  from f1 obtain c where c: "find (conn_key u s) (composioConnections w1) = Some c" ..
  have fnd: "find (conn_key u s) cs = Some (c\<lparr>conn_status := Error\<rparr>)"
    unfolding cs_def using find_Some_key[OF c]
    by (subst find_update_where) (simp_all add: conn_key_def c)
  have all: "\<forall>c \<in> set cs. conn_key u s c \<longrightarrow> conn_status c = Error"
    unfolding cs_def by (rule update_where_all) simp
  show ?thesis
    using r fnd all by (simp add: c' e' statusOf_def enabledOf_def)
qed

theorem connect_no_auth_config_witness:
  "requireAuth (remote_github ''ACTIVE'') = Inr ''u1''
   \<and> snd (getAuthConfigId (remote_github ''ACTIVE'') ''github'' world0) = None
   \<and> snd (connect (remote_github ''ACTIVE'') ''github'' ''GitHub'' world0)
       = Inl (INTERNAL_SERVER_ERROR
               ''Cannot connect to GitHub. This app may not support OAuth authentication or requires manual API key setup in Composio dashboard.'')
   \<and> statusOf (fst (connect (remote_github ''ACTIVE'') ''github'' ''GitHub'' world0)) ''u1'' ''github'' = Error
   \<and> \<not> enabledOf (fst (connect (remote_github ''ACTIVE'') ''github'' ''GitHub'' world0)) ''u1'' ''github''"
proof -
  let ?e = "remote_github ''ACTIVE''"
  have h: "requireAuth ?e = Inr ''u1''"
    by (simp add: requireAuth_def remote_github_def)
  have n: "snd (getAuthConfigId ?e ''github'' world0) = None"
    by (simp add: getAuthConfigId_def remote_github_def Let_def)
  have en: "\<not> enabledOf world0 ''u1'' ''github''"
    by (simp add: enabledOf_def world0_def)
  note t = connect_no_auth_config[OF h n surjective_pairing, of "''GitHub''"]
  from t h n en show ?thesis by simp
qed

text \<open>
  C6. After disconnect by an authenticated user, whatever the remote answers to the
  delete request and whatever parsing the stored metadata gives, the call succeeds,
  every connection row of the pair has status disconnected and neither metadata nor
  connectedAt (the row that existed is that row with these three fields reset), every
  enabled row of the pair is false, and the session cache is cleared.
\<close>

theorem disconnect_resets:
  assumes auth: "requireAuth e = Inr u"
    and run: "disconnect e s w = (w', r)"
  shows "r = Inr True
    \<and> (\<forall>c \<in> set (composioConnections w'). conn_key u s c \<longrightarrow>
          conn_status c = Disconnected \<and> conn_metadata c = None \<and> conn_connectedAt c = None)
    \<and> (\<forall>c. find (conn_key u s) (composioConnections w) = Some c \<longrightarrow>
          find (conn_key u s) (composioConnections w')
            = Some (c\<lparr>conn_status := Disconnected, conn_connectedAt := None, conn_metadata := None\<rparr>))
    \<and> (\<forall>t \<in> set (composioEnabledToolkits w'). et_key u s t \<longrightarrow> \<not> et_enabled t)
    \<and> \<not> enabledOf w' u s
    \<and> cachedMcpServer w' = None \<and> cachedMcpUrl w' = None \<and> mcpUrlExpiry w' = 0
    \<and> cachedUserId w' = None \<and> cachedToolkits w' = []"
proof -
  define w1 where "w1 = (case find (conn_key u s) (composioConnections w) of
                      None \<Rightarrow> w
                    | Some connection \<Rightarrow>
                        (case conn_metadata connection of
                           None \<Rightarrow> w
                         | Some text \<Rightarrow>
                             if text = [] then w
                             else (case JSON_parse e text of
                                     ParseThrows \<Rightarrow> w
                                   | ConnectionIdField None \<Rightarrow> w
                                   | ConnectionIdField (Some connectionId) \<Rightarrow>
                                       if connectionId = [] then w
                                       else fst (disconnectToolkit e connectionId w))))"
  have t1: "composioConnections w1 = composioConnections w"
    and t2: "composioEnabledToolkits w1 = composioEnabledToolkits w"
    by (simp_all add: w1_def split: option.splits parsed.splits)
  define cs where "cs = update_where (conn_key u s)
      (\<lambda>r. r\<lparr>conn_status := Disconnected, conn_connectedAt := None, conn_metadata := None\<rparr>)
      (composioConnections w)"
  define ts where "ts = update_where (et_key u s) (\<lambda>r. r\<lparr>et_enabled := False\<rparr>)
      (composioEnabledToolkits w)"
  from run auth have r: "r = Inr True"
    and w': "w' = invalidateSession (w1\<lparr>composioConnections := cs, composioEnabledToolkits := ts\<rparr>)"
    by (simp_all add: disconnect_def Let_def w1_def[symmetric] t1 t2 cs_def ts_def)
  have c': "composioConnections w' = cs" and e': "composioEnabledToolkits w' = ts"
    by (simp_all add: w')
  have a: "\<forall>c \<in> set cs. conn_key u s c \<longrightarrow>
          conn_status c = Disconnected \<and> conn_metadata c = None \<and> conn_connectedAt c = None"
    unfolding cs_def by (rule update_where_all) simp
  have b: "\<forall>c. find (conn_key u s) (composioConnections w) = Some c \<longrightarrow>
          find (conn_key u s) cs
            = Some (c\<lparr>conn_status := Disconnected, conn_connectedAt := None, conn_metadata := None\<rparr>)"
    unfolding cs_def
    by (subst find_update_where) (auto simp: conn_key_def dest: find_Some_key)
  have c: "\<forall>t \<in> set ts. et_key u s t \<longrightarrow> \<not> et_enabled t"
    unfolding ts_def by (rule update_where_all) simp
  have d: "\<not> enabledOf w' u s"
  proof (cases "find (et_key u s) ts")
    case None
    then show ?thesis by (simp add: enabledOf_def e')
  next
    case (Some t)
    with find_Some_key[OF Some] c show ?thesis by (simp add: enabledOf_def e')
  qed
  have f: "cachedMcpServer w' = None \<and> cachedMcpUrl w' = None \<and> mcpUrlExpiry w' = 0
    \<and> cachedUserId w' = None \<and> cachedToolkits w' = []"
    by (simp add: w')
  show ?thesis using r a b c d f unfolding c' e' by blast
qed



theorem disconnect_resets_witness:
  "requireAuth (remote_github ''ACTIVE'') = Inr ''u1''
   \<and> snd (disconnect (remote_github ''ACTIVE'') ''github'' (world_github Connected True)) = Inr True
   \<and> statusOf (fst (disconnect (remote_github ''ACTIVE'') ''github'' (world_github Connected True)))
        ''u1'' ''github'' = Disconnected
   \<and> \<not> enabledOf (fst (disconnect (remote_github ''ACTIVE'') ''github'' (world_github Connected True)))
        ''u1'' ''github''"
proof -
  let ?e = "remote_github ''ACTIVE''" and ?w = "world_github Connected True"
  have h: "requireAuth ?e = Inr ''u1''"
    by (simp add: requireAuth_def remote_github_def)
  have f: "find (conn_key ''u1'' ''github'') (composioConnections ?w)
             = Some (hd (composioConnections ?w))"
    by (simp add: world_github_def world0_def conn_key_def)
  note t = disconnect_resets[OF h surjective_pairing, of "''github''" ?w]
  from t f h show ?thesis by (simp add: statusOf_def)
qed

text \<open>
  C7. When getOrCreateMcpServer has returned a server for a list of toolkits, a second
  call with any reordering of that list (in particular \<open>[b, a]\<close> after \<open>[a, b]\<close>) returns
  the same server and the world unchanged, whatever the remote would answer: no list and
  no create request is issued.
\<close>

theorem getOrCreateMcpServer_order_independent:
  assumes first: "getOrCreateMcpServer e1 ts w = (w1, Some server)"
    and same: "mset ts' = mset ts"
  shows "getOrCreateMcpServer e2 ts' w1 = (w1, Some server)"
  using getOrCreateMcpServer_Some[OF first] same
  by (simp add: getOrCreateMcpServer_def arraysEqual_iff)

theorem getOrCreateMcpServer_order_independent_witness:
  "getOrCreateMcpServer (remote_github ''ACTIVE'') [''github'', ''slack''] world0
     = (world0\<lparr>cachedMcpServer := Some \<lparr>srv_id = ''srv_1'', srv_name = ''anchor-1000'',
                                        srv_toolkits = [''github'', ''slack'']\<rparr>,
               cachedToolkits := [''github'', ''slack''],
               fetched := [GET_mcp_servers,
                           POST_mcp_servers_custom ''anchor-1000'' [''github'', ''slack'']]\<rparr>,
        Some \<lparr>srv_id = ''srv_1'', srv_name = ''anchor-1000'', srv_toolkits = [''github'', ''slack'']\<rparr>)
   \<and> mset [''slack'', ''github''] = mset [''github'', ''slack'']
   \<and> getOrCreateMcpServer ((remote_github ''ACTIVE'')\<lparr>mcp_servers := Rejected\<rparr>) [''slack'', ''github'']
        (fst (getOrCreateMcpServer (remote_github ''ACTIVE'') [''github'', ''slack''] world0))
     = (fst (getOrCreateMcpServer (remote_github ''ACTIVE'') [''github'', ''slack''] world0),
        Some \<lparr>srv_id = ''srv_1'', srv_name = ''anchor-1000'', srv_toolkits = [''github'', ''slack'']\<rparr>)"
proof -
  let ?e = "remote_github ''ACTIVE''"
  let ?srv = "\<lparr>srv_id = ''srv_1'', srv_name = ''anchor-1000'', srv_toolkits = [''github'', ''slack'']\<rparr>"
  let ?w1 = "world0\<lparr>cachedMcpServer := Some ?srv,
               cachedToolkits := [''github'', ''slack''],
               fetched := [GET_mcp_servers,
                           POST_mcp_servers_custom ''anchor-1000'' [''github'', ''slack'']]\<rparr>"
  have a: "getOrCreateMcpServer ?e [''github'', ''slack''] world0 = (?w1, Some ?srv)"
    by (simp add: getOrCreateMcpServer_def createMcpServer_def world0_def remote_github_def
          fetch_def js_or_def truthy_def Let_def string_of_nat.simps)
  have m: "mset [''slack'', ''github''] = mset [''github'', ''slack'']"
    by simp
  note t = getOrCreateMcpServer_order_independent[OF a m, of "?e\<lparr>mcp_servers := Rejected\<rparr>"]
  from a m t show ?thesis by simp
qed

text \<open>
  C8. After generateMcpUrl has returned a URL for a user: a second call for the same
  user whose clock reading is before the cached expiry returns the same URL and the same
  world (no request); if the first call minted the URL, the expiry is the mint time plus
  30 minutes; and a call at or after the expiry, or for another user, issues a generate
  request, and when that yields a URL it returns it and caches it for that user with the
  expiry 30 minutes after the new mint time.
\<close>

theorem generateMcpUrl_cache:
  assumes first: "generateMcpUrl e1 sid1 u w = (w1, Some url)"
  shows "(now_check e2 < mcpUrlExpiry w1 \<longrightarrow> generateMcpUrl e2 sid2 u w1 = (w1, Some url))
    \<and> (fetched w1 \<noteq> fetched w \<longrightarrow> mcpUrlExpiry w1 = now_mint e1 + 30 * 60 * 1000)
    \<and> (\<not> now_check e2 < mcpUrlExpiry w1 \<or> u2 \<noteq> u \<longrightarrow>
         fetched (fst (generateMcpUrl e2 sid2 u2 w1))
           = fetched w1 @ [POST_mcp_servers_generate sid2 u2]
         \<and> (\<forall>data. mcp_servers_generate e2 sid2 u2 = Ok data \<and> truthy (mintedUrl data) \<longrightarrow>
               snd (generateMcpUrl e2 sid2 u2 w1) = mintedUrl data
               \<and> cachedMcpUrl (fst (generateMcpUrl e2 sid2 u2 w1)) = mintedUrl data
               \<and> cachedUserId (fst (generateMcpUrl e2 sid2 u2 w1)) = Some u2
               \<and> mcpUrlExpiry (fst (generateMcpUrl e2 sid2 u2 w1)) = now_mint e2 + 30 * 60 * 1000))"
proof -
  note c = generateMcpUrl_Some[OF first]
  have hit: "generateMcpUrl e2 sid2 u w1 = (w1, Some url)" if "now_check e2 < mcpUrlExpiry w1"
  proof -
    from c have "truthy (cachedMcpUrl w1)" "cachedUserId w1 = Some u" "cachedMcpUrl w1 = Some url"
      by blast+
    with generateMcpUrl_hit[OF this(1,2) that, of sid2] show ?thesis by simp
  qed
  have miss: "fetched (fst (generateMcpUrl e2 sid2 u2 w1))
           = fetched w1 @ [POST_mcp_servers_generate sid2 u2]
         \<and> (\<forall>data. mcp_servers_generate e2 sid2 u2 = Ok data \<and> truthy (mintedUrl data) \<longrightarrow>
               snd (generateMcpUrl e2 sid2 u2 w1) = mintedUrl data
               \<and> cachedMcpUrl (fst (generateMcpUrl e2 sid2 u2 w1)) = mintedUrl data
               \<and> cachedUserId (fst (generateMcpUrl e2 sid2 u2 w1)) = Some u2
               \<and> mcpUrlExpiry (fst (generateMcpUrl e2 sid2 u2 w1)) = now_mint e2 + 30 * 60 * 1000)"
    if "\<not> now_check e2 < mcpUrlExpiry w1 \<or> u2 \<noteq> u"
  proof -
    from that c
    have "\<not> (truthy (cachedMcpUrl w1) \<and> cachedUserId w1 = Some u2 \<and> now_check e2 < mcpUrlExpiry w1)"
      by auto
    note m = generateMcpUrl_miss[OF this, of sid2]
    show ?thesis unfolding m by (simp split: response.splits)
  qed
  from hit miss c show ?thesis by blast
qed

theorem generateMcpUrl_cache_witness:
  "generateMcpUrl (remote_github ''ACTIVE'') ''srv_1'' ''u1'' world0
     = (world0\<lparr>cachedMcpUrl := Some ''https://mcp.example/srv_1?user_id=u1'',
               mcpUrlExpiry := 1801001, cachedUserId := Some ''u1'',
               fetched := [POST_mcp_servers_generate ''srv_1'' ''u1'']\<rparr>,
        Some ''https://mcp.example/srv_1?user_id=u1'')
   \<and> generateMcpUrl ((remote_github ''ACTIVE'')\<lparr>now_check := 1801000, mcp_servers_generate := (\<lambda>a b. Rejected)\<rparr>)
        ''srv_1'' ''u1''
        (fst (generateMcpUrl (remote_github ''ACTIVE'') ''srv_1'' ''u1'' world0))
     = (fst (generateMcpUrl (remote_github ''ACTIVE'') ''srv_1'' ''u1'' world0),
        Some ''https://mcp.example/srv_1?user_id=u1'')
   \<and> fetched (fst (generateMcpUrl ((remote_github ''ACTIVE'')\<lparr>now_check := 1801001, now_mint := 1801005\<rparr>)
        ''srv_1'' ''u1''
        (fst (generateMcpUrl (remote_github ''ACTIVE'') ''srv_1'' ''u1'' world0))))
     = [POST_mcp_servers_generate ''srv_1'' ''u1'', POST_mcp_servers_generate ''srv_1'' ''u1'']
   \<and> mcpUrlExpiry (fst (generateMcpUrl ((remote_github ''ACTIVE'')\<lparr>now_check := 1801001, now_mint := 1801005\<rparr>)
        ''srv_1'' ''u1''
        (fst (generateMcpUrl (remote_github ''ACTIVE'') ''srv_1'' ''u1'' world0))))
     = 3601005"
proof -
  let ?e = "remote_github ''ACTIVE''"
  let ?url = "''https://mcp.example/srv_1?user_id=u1''"
  let ?w1 = "world0\<lparr>cachedMcpUrl := Some ?url,
               mcpUrlExpiry := 1801001, cachedUserId := Some ''u1'',
               fetched := [POST_mcp_servers_generate ''srv_1'' ''u1'']\<rparr>"
  let ?e2 = "?e\<lparr>now_check := 1801000, mcp_servers_generate := (\<lambda>a b. Rejected)\<rparr>"
  let ?e3 = "?e\<lparr>now_check := 1801001, now_mint := 1801005\<rparr>"
  have a: "generateMcpUrl ?e ''srv_1'' ''u1'' world0 = (?w1, Some ?url)"
    by (simp add: generateMcpUrl_def mintedUrl_def world0_def remote_github_def
          fetch_def js_or_def truthy_def Let_def)
  have x: "mcpUrlExpiry ?w1 = 1801001" "fetched ?w1 = [POST_mcp_servers_generate ''srv_1'' ''u1'']"
    by simp_all
  have d: "mcp_servers_generate ?e3 ''srv_1'' ''u1''
      = Ok \<lparr>gen_user_ids_url = Some [?url], gen_url = None, gen_mcp_url = None\<rparr>"
    "truthy (mintedUrl \<lparr>gen_user_ids_url = Some [?url], gen_url = None, gen_mcp_url = None\<rparr>)"
    "now_check ?e2 = 1801000" "now_check ?e3 = 1801001" "now_mint ?e3 = 1801005"
    by (simp_all add: remote_github_def mintedUrl_def js_or_def truthy_def)
  note t2 = generateMcpUrl_cache[OF a, of ?e2 "''srv_1''" "''u1''", unfolded x d]
  note t3 = generateMcpUrl_cache[OF a, of ?e3 "''srv_1''" "''u1''", unfolded x d]
  have p: "generateMcpUrl ?e2 ''srv_1'' ''u1'' ?w1 = (?w1, Some ?url)"
    using t2 by simp
  have q: "fetched (fst (generateMcpUrl ?e3 ''srv_1'' ''u1'' ?w1))
        = [POST_mcp_servers_generate ''srv_1'' ''u1'', POST_mcp_servers_generate ''srv_1'' ''u1'']
      \<and> mcpUrlExpiry (fst (generateMcpUrl ?e3 ''srv_1'' ''u1'' ?w1)) = 3601005"
    using t3 d(1,2) by simp
  show ?thesis unfolding a fst_conv using p q by simp
qed

text \<open>
  C9. toggleToolkit followed by the router's getMcpConfig. If the toggle completed (as
  it does whenever the same user is still logged in for getMcpConfig) and getMcpConfig
  returns a configuration, then the toggle left all five cache fields cleared, and
  getMcpConfig issued a list request and, last, a generate request whose response carries
  the returned URL: the URL is minted after the toggle, and cached with a fresh expiry.
\<close>

theorem toggleToolkit_then_getMcpConfig:
  assumes toggle: "toggleToolkit e1 s enabled w = (w1, r)"
    and completed: "r = Inr True \<or> getUser e2 = getUser e1"
    and config: "composioRouter_getMcpConfig e2 w1 = (w2, Some config)"
  shows "r = Inr True
    \<and> cachedMcpServer w1 = None \<and> cachedMcpUrl w1 = None \<and> mcpUrlExpiry w1 = 0
    \<and> cachedUserId w1 = None \<and> cachedToolkits w1 = []
    \<and> (\<exists>serverId userId data calls.
          fetched w2 = fetched w1 @ GET_mcp_servers # calls @ [POST_mcp_servers_generate serverId userId]
          \<and> mcp_servers_generate e2 serverId userId = Ok data
          \<and> mintedUrl data = Some (cfg_url config)
          \<and> cachedMcpUrl w2 = Some (cfg_url config)
          \<and> mcpUrlExpiry w2 = now_mint e2 + 30 * 60 * 1000)"
proof -
  from completed toggleToolkit_completes[OF toggle config] have r: "r = Inr True" by blast
  from toggleToolkit_fresh[OF toggle[unfolded r] config] r show ?thesis by blast
qed

theorem toggleToolkit_then_getMcpConfig_witness:
  "toggleToolkit (remote_github ''ACTIVE'') ''github'' True
       ((world_github Connected False)\<lparr>cachedMcpUrl := Some ''https://old.example/'',
           mcpUrlExpiry := 5000, cachedUserId := Some ''u1''\<rparr>)
     = (invalidateSession
          ((world_github Connected False)\<lparr>composioEnabledToolkits :=
              [\<lparr>et_id = 1, et_clerkUserId = ''u1'', et_toolkitName = ''github'', et_enabled = True\<rparr>]\<rparr>),
        Inr True)
   \<and> snd (composioRouter_getMcpConfig (remote_github ''ACTIVE'')
        (invalidateSession
          ((world_github Connected False)\<lparr>composioEnabledToolkits :=
              [\<lparr>et_id = 1, et_clerkUserId = ''u1'', et_toolkitName = ''github'', et_enabled = True\<rparr>]\<rparr>)))
     = Some \<lparr>cfg_url = ''https://mcp.example/srv_1?user_id=u1'', cfg_headers = [(''x-api-key'', ''key'')]\<rparr>
   \<and> mcpUrlExpiry (fst (composioRouter_getMcpConfig (remote_github ''ACTIVE'')
        (invalidateSession
          ((world_github Connected False)\<lparr>composioEnabledToolkits :=
              [\<lparr>et_id = 1, et_clerkUserId = ''u1'', et_toolkitName = ''github'', et_enabled = True\<rparr>]\<rparr>))))
     = 1801001"
proof -
  let ?e = "remote_github ''ACTIVE''"
  let ?w = "(world_github Connected False)\<lparr>cachedMcpUrl := Some ''https://old.example/'',
           mcpUrlExpiry := 5000, cachedUserId := Some ''u1''\<rparr>"
  let ?w1 = "invalidateSession
          ((world_github Connected False)\<lparr>composioEnabledToolkits :=
              [\<lparr>et_id = 1, et_clerkUserId = ''u1'', et_toolkitName = ''github'', et_enabled = True\<rparr>]\<rparr>)"
  let ?cfg = "\<lparr>cfg_url = ''https://mcp.example/srv_1?user_id=u1'', cfg_headers = [(''x-api-key'', ''key'')]\<rparr>"
  have a: "toggleToolkit ?e ''github'' True ?w = (?w1, Inr True)"
    by (simp add: toggleToolkit_def requireAuth_def remote_github_def setEnabled_def
          world_github_def world0_def et_key_def update_where_def invalidateSession_def)
  have b: "snd (composioRouter_getMcpConfig ?e ?w1) = Some ?cfg"
    by (simp add: composioRouter_getMcpConfig_def getMcpConfig_def isConfigured_def
          requireAuth_def getClerkUserId_def remote_github_def world_github_def world0_def
          invalidateSession_def getOrCreateMcpServer_def createMcpServer_def generateMcpUrl_def
          mintedUrl_def fetch_def js_or_def truthy_def Let_def arraysEqual_def)
  have b': "composioRouter_getMcpConfig ?e ?w1 = (fst (composioRouter_getMcpConfig ?e ?w1), Some ?cfg)"
    using b by (metis surjective_pairing)
  have nm: "now_mint ?e = 1001" by (simp add: remote_github_def)
  note t = toggleToolkit_then_getMcpConfig[OF a _ b']
  from t have "mcpUrlExpiry (fst (composioRouter_getMcpConfig ?e ?w1)) = 1801001"
    unfolding nm by auto
  with a b show ?thesis by simp
qed

text \<open>
  C10. pollConnectionStatus by an authenticated user for a pair without a connection
  row: the connections table is unchanged (the update matches no row, so the returned
  status is not stored and there is still no row), yet when the status is \<open>connected\<close> the
  enabled flag of the pair is true afterwards.
\<close>

theorem pollConnectionStatus_no_record:
  assumes auth: "requireAuth e = Inr u"
    and none: "find (conn_key u s) (composioConnections w) = None"
    and run: "pollConnectionStatus e s w = (w', r)"
  shows "r = Inr (snd (getConnectionStatus e s w))
    \<and> composioConnections w' = composioConnections w
    \<and> find (conn_key u s) (composioConnections w') = None
    \<and> (snd (getConnectionStatus e s w) = Connected \<longrightarrow> enabledOf w' u s)"
proof -
  note p = pollConnectionStatus_unfold[OF auth run]
  have same: "composioConnections w' = composioConnections w"
    unfolding p(2) by (rule find_None_update_where[OF none])
  have en: "enabledOf w' u s" if "snd (getConnectionStatus e s w) = Connected"
    using p(3)[OF that] by (simp add: setEnabled_enabledOf)
  show ?thesis using p(1) same none en by simp
qed

theorem pollConnectionStatus_no_record_witness:
  "requireAuth (remote_github ''ACTIVE'') = Inr ''u1''
   \<and> find (conn_key ''u1'' ''github'') (composioConnections world0) = None
   \<and> snd (pollConnectionStatus (remote_github ''ACTIVE'') ''github'' world0) = Inr Connected
   \<and> composioConnections (fst (pollConnectionStatus (remote_github ''ACTIVE'') ''github'' world0)) = []
   \<and> enabledOf (fst (pollConnectionStatus (remote_github ''ACTIVE'') ''github'' world0)) ''u1'' ''github''"
proof -
  let ?e = "remote_github ''ACTIVE''"
  have h: "requireAuth ?e = Inr ''u1''"
    by (simp add: requireAuth_def remote_github_def)
  have n: "find (conn_key ''u1'' ''github'') (composioConnections world0) = None"
    by (simp add: world0_def)
  have g: "snd (getConnectionStatus ?e ''github'' world0) = Connected"
    by (simp add: getConnectionStatus_def isConfigured_def getClerkUserId_def remote_github_def
          github_account_def matchesToolkit_def mapStatus_def asciiUpperCase_def)
  note t = pollConnectionStatus_no_record[OF h n surjective_pairing]
  from t g h n show ?thesis by (simp add: world0_def)
qed

end
